theory Spec2Isabelle
  imports Complex_Main "HOL-Library.AList"
begin

section \<open>JavaScript values\<close>

text \<open>
  The module \<^verbatim>\<open>gemini.ts\<close> passes values of type \<^verbatim>\<open>any\<close> between the JSON parser, the
  schema validators and its callers. A JavaScript number is a double: a finite double is a
  rational, and the three remaining values are kept apart. An object is its list of own
  properties in insertion order; a property is looked up by its first occurrence.
\<close>

datatype jsnum = Fin rat | PosInf | NegInf | NaN

datatype jsval =
    JUndefined
  | JNull
  | JBool bool
  | JNum jsnum
  | JStr string
  | JArr "jsval list"
  | JObj "(string \<times> jsval) list"

text \<open>
  The errors the module can throw: \<^verbatim>\<open>new Error(message)\<close>, the runtime's \<^verbatim>\<open>TypeError\<close>
  (property access on \<^verbatim>\<open>undefined\<close> or \<^verbatim>\<open>null\<close>, a rejected \<^verbatim>\<open>fetch\<close>) and \<^verbatim>\<open>SyntaxError\<close>
  (\<^verbatim>\<open>response.json()\<close> on a body that is not JSON), and zod's \<^verbatim>\<open>ZodError\<close>, thrown by
  \<^verbatim>\<open>schema.parse\<close>.
\<close>

datatype js_error = Error string | TypeError | SyntaxError | ZodError

text \<open>\<^verbatim>\<open>obj[k]\<close> on the own properties of an object: \<^verbatim>\<open>undefined\<close> when the key is absent.\<close>

definition js_own :: "(string \<times> jsval) list \<Rightarrow> string \<Rightarrow> jsval" where
  "js_own kvs k = (case map_of kvs k of Some v \<Rightarrow> v | None \<Rightarrow> JUndefined)"

text \<open>\<^verbatim>\<open>k in obj\<close> on the own properties of an object.\<close>

definition js_has :: "(string \<times> jsval) list \<Rightarrow> string \<Rightarrow> bool" where
  "js_has kvs k = (k \<in> fst ` set kvs)"

text \<open>An array index as a property name: \<^verbatim>\<open>"0"\<close>, or decimal digits with no leading zero.\<close>

definition digit_val :: "char \<Rightarrow> nat option" where
  "digit_val c =
     (let n = (of_char c :: nat) in if 48 \<le> n \<and> n \<le> 57 then Some (n - 48) else None)"

fun digits_val :: "nat \<Rightarrow> string \<Rightarrow> nat option" where
  "digits_val acc [] = Some acc"
| "digits_val acc (c # cs) =
     (case digit_val c of None \<Rightarrow> None | Some d \<Rightarrow> digits_val (acc * 10 + d) cs)"

definition array_index :: "string \<Rightarrow> nat option" where
  "array_index k =
     (if k = [] then None
      else if hd k = CHR ''0'' \<and> tl k \<noteq> [] then None
      else digits_val 0 k)"

text \<open>
  Property access \<^verbatim>\<open>v.k\<close> and \<^verbatim>\<open>v[k]\<close> for the property names the module uses
  (\<^verbatim>\<open>candidates\<close>, \<^verbatim>\<open>length\<close>, \<^verbatim>\<open>0\<close>, \<^verbatim>\<open>content\<close>, \<^verbatim>\<open>parts\<close>, \<^verbatim>\<open>text\<close>, \<^verbatim>\<open>question\<close>), none of which
  is inherited from a prototype other than \<^verbatim>\<open>length\<close> and the indices of arrays and strings.
  It throws a \<^verbatim>\<open>TypeError\<close> on \<^verbatim>\<open>undefined\<close> and \<^verbatim>\<open>null\<close>.
\<close>

fun js_get :: "jsval \<Rightarrow> string \<Rightarrow> js_error + jsval" where
  "js_get JUndefined k = Inl TypeError"
| "js_get JNull k = Inl TypeError"
| "js_get (JBool b) k = Inr JUndefined"
| "js_get (JNum n) k = Inr JUndefined"
| "js_get (JStr s) k =
     (if k = ''length'' then Inr (JNum (Fin (of_nat (length s))))
      else case array_index k of
             Some i \<Rightarrow> if i < length s then Inr (JStr [s ! i]) else Inr JUndefined
           | None \<Rightarrow> Inr JUndefined)"
| "js_get (JArr xs) k =
     (if k = ''length'' then Inr (JNum (Fin (of_nat (length xs))))
      else case array_index k of
             Some i \<Rightarrow> if i < length xs then Inr (xs ! i) else Inr JUndefined
           | None \<Rightarrow> Inr JUndefined)"
| "js_get (JObj kvs) k = Inr (js_own kvs k)"

text \<open>ToBoolean, as \<^verbatim>\<open>!v\<close> and \<^verbatim>\<open>||\<close> use it.\<close>

fun truthy :: "jsval \<Rightarrow> bool" where
  "truthy JUndefined = False"
| "truthy JNull = False"
| "truthy (JBool b) = b"
| "truthy (JNum n) = (n \<noteq> Fin 0 \<and> n \<noteq> NaN)"
| "truthy (JStr s) = (s \<noteq> [])"
| "truthy (JArr xs) = True"
| "truthy (JObj kvs) = True"

text \<open>Object spread \<^verbatim>\<open>{...base, ...extra}\<close>: a key of \<^verbatim>\<open>extra\<close> that \<^verbatim>\<open>base\<close> has replaces the
  value in place, a new key is appended. (The runtime lists the keys that are array indices
  before the others; the list here keeps the order of insertion, and what is proved below
  of a spread is proved of the value under each key.)\<close>

definition spread :: "(string \<times> jsval) list \<Rightarrow> (string \<times> jsval) list \<Rightarrow> (string \<times> jsval) list" where
  "spread base extra = fold (\<lambda>(k, v) acc. AList.update k v acc) extra base"

section \<open>The schema library\<close>

text \<open>
  The schemas are built from \<^verbatim>\<open>z.string()\<close>, \<^verbatim>\<open>z.number()\<close> with \<^verbatim>\<open>.min\<close> and \<^verbatim>\<open>.max\<close>,
  \<^verbatim>\<open>z.boolean()\<close>, \<^verbatim>\<open>z.enum\<close>, \<^verbatim>\<open>z.array\<close>, \<^verbatim>\<open>z.object\<close> and \<^verbatim>\<open>.optional()\<close>. \<^verbatim>\<open>schema.parse(v)\<close>
  returns the validated value or throws a \<^verbatim>\<open>ZodError\<close>. An object schema is in zod's default
  mode: for each declared key, in declaration order, the value \<^verbatim>\<open>data[key]\<close> is parsed, and
  the result is stored under the key when it is not \<^verbatim>\<open>undefined\<close> or the key is in the data;
  keys that are not declared are dropped.
\<close>

datatype zcheck = Min rat | Max rat

datatype zschema =
    ZString
  | ZNumber "zcheck list"
  | ZBoolean
  | ZEnum "string list"
  | ZArray zschema
  | ZObject "(string \<times> zschema) list"
  | ZOptional zschema

text \<open>\<^verbatim>\<open>data < value\<close> and \<^verbatim>\<open>data > value\<close> on a number and a finite bound.\<close>

fun num_lt :: "jsnum \<Rightarrow> rat \<Rightarrow> bool" where
  "num_lt (Fin q) b = (q < b)"
| "num_lt PosInf b = False"
| "num_lt NegInf b = True"
| "num_lt NaN b = False"

fun num_gt :: "jsnum \<Rightarrow> rat \<Rightarrow> bool" where
  "num_gt (Fin q) b = (q > b)"
| "num_gt PosInf b = True"
| "num_gt NegInf b = False"
| "num_gt NaN b = False"

text \<open>A check passes unless the number is too small (\<^verbatim>\<open>min\<close>, inclusive) or too big
  (\<^verbatim>\<open>max\<close>, inclusive).\<close>

fun check_ok :: "jsnum \<Rightarrow> zcheck \<Rightarrow> bool" where
  "check_ok n (Min b) = (\<not> num_lt n b)"
| "check_ok n (Max b) = (\<not> num_gt n b)"

text \<open>The first error of a list of results, or all the values.\<close>

fun collect :: "(js_error + 'a) list \<Rightarrow> js_error + 'a list" where
  "collect [] = Inr []"
| "collect (r # rs) =
     (case r of
        Inl e \<Rightarrow> Inl e
      | Inr x \<Rightarrow> (case collect rs of Inl e \<Rightarrow> Inl e | Inr xs \<Rightarrow> Inr (x # xs)))"

text \<open>What a parsed field contributes to the output object.\<close>

definition field_out :: "(string \<times> jsval) list \<Rightarrow> string \<Rightarrow> jsval \<Rightarrow> (string \<times> jsval) list" where
  "field_out kvs k r = (if r \<noteq> JUndefined \<or> js_has kvs k then [(k, r)] else [])"

fun zparse :: "zschema \<Rightarrow> jsval \<Rightarrow> js_error + jsval" where
  "zparse ZString v = (case v of JStr s \<Rightarrow> Inr v | _ \<Rightarrow> Inl ZodError)"
| "zparse (ZNumber cs) v =
     (case v of
        JNum n \<Rightarrow> if n \<noteq> NaN \<and> list_all (check_ok n) cs then Inr v else Inl ZodError
      | _ \<Rightarrow> Inl ZodError)"
| "zparse ZBoolean v = (case v of JBool b \<Rightarrow> Inr v | _ \<Rightarrow> Inl ZodError)"
| "zparse (ZEnum vals) v =
     (case v of
        JStr s \<Rightarrow> if s \<in> set vals then Inr v else Inl ZodError
      | _ \<Rightarrow> Inl ZodError)"
| "zparse (ZArray s) v =
     (case v of
        JArr xs \<Rightarrow>
          (case collect (map (zparse s) xs) of Inl e \<Rightarrow> Inl e | Inr ys \<Rightarrow> Inr (JArr ys))
      | _ \<Rightarrow> Inl ZodError)"
| "zparse (ZObject shape) v =
     (case v of
        JObj kvs \<Rightarrow>
          (case collect (map (\<lambda>(k, s). case zparse s (js_own kvs k) of
                                         Inl e \<Rightarrow> Inl e
                                       | Inr r \<Rightarrow> Inr (field_out kvs k r)) shape) of
             Inl e \<Rightarrow> Inl e
           | Inr outs \<Rightarrow> Inr (JObj (concat outs)))
      | _ \<Rightarrow> Inl ZodError)"
| "zparse (ZOptional s) v = (if v = JUndefined then Inr JUndefined else zparse s v)"

section \<open>The response schemas\<close>

text \<open>The seven schemas of the module, field by field, in declaration order.\<close>

definition conflictAnalysisSchema :: zschema where
  "conflictAnalysisSchema = ZObject
     [(''hasConflict'', ZBoolean),
      (''conflictDetails'', ZOptional ZString),
      (''suggestedSolutions'', ZOptional (ZArray (ZObject
         [(''description'', ZString),
          (''pros'', ZArray ZString),
          (''cons'', ZArray ZString)])))]"

definition coworkingRecommendationSchema :: zschema where
  "coworkingRecommendationSchema = ZObject
     [(''recommendations'', ZArray (ZObject
         [(''name'', ZString),
          (''location'', ZString),
          (''rating'', ZOptional ZString),
          (''price'', ZString),
          (''internetSpeed'', ZOptional ZString),
          (''amenities'', ZArray ZString),
          (''matchingCriteria'', ZArray ZString),
          (''potentialDrawbacks'', ZArray ZString),
          (''rank'', ZNumber [Min 1, Max 5])])),
      (''recommendationSummary'', ZString)]"

definition timeZoneRecommendationSchema :: zschema where
  "timeZoneRecommendationSchema = ZObject
     [(''optimalMeetingTimes'', ZArray (ZObject
         [(''startTime'', ZString),
          (''endTime'', ZString),
          (''impactAssessment'', ZArray (ZObject
             [(''location'', ZString),
              (''localTime'', ZString),
              (''impact'', ZEnum [''Optimal'', ''Acceptable'', ''Challenging''])])),
          (''reasoning'', ZString)])),
      (''jetlagManagementTips'', ZOptional (ZArray ZString))]"

definition budgetAnalysisSchema :: zschema where
  "budgetAnalysisSchema = ZObject
     [(''categorizedExpenses'', ZArray (ZObject
         [(''category'', ZString),
          (''amount'', ZNumber []),
          (''percentage'', ZNumber []),
          (''workRelated'', ZBoolean)])),
      (''comparisonToAverage'', ZObject
         [(''status'', ZEnum [''Above average'', ''Below average'', ''Average'']),
          (''details'', ZString)]),
      (''recommendations'', ZArray (ZObject
         [(''description'', ZString),
          (''potentialSavings'', ZOptional (ZNumber [])),
          (''implementationDifficulty'', ZEnum [''Easy'', ''Medium'', ''Hard''])]))]"

definition communityRecommendationSchema :: zschema where
  "communityRecommendationSchema = ZObject
     [(''recommendations'', ZArray (ZObject
         [(''name'', ZString),
          (''type'', ZString),
          (''relevanceScore'', ZNumber [Min 1, Max 10]),
          (''description'', ZString),
          (''contactMethod'', ZOptional ZString),
          (''matchingInterests'', ZArray ZString),
          (''networkingApproach'', ZString)]))]"

definition legalResourceSchema :: zschema where
  "legalResourceSchema = ZObject
     [(''visaRequirements'', ZOptional (ZObject
         [(''requiredVisa'', ZString),
          (''stayDuration'', ZString),
          (''applicationProcess'', ZString),
          (''requiredDocuments'', ZArray ZString),
          (''processingTime'', ZString),
          (''fees'', ZString)])),
      (''taxImplications'', ZOptional (ZObject
         [(''taxStatus'', ZString),
          (''reportingRequirements'', ZString),
          (''treatiesSummary'', ZOptional ZString),
          (''keyConsiderations'', ZArray ZString)])),
      (''workLegality'', ZOptional (ZObject
         [(''legalStatus'', ZString),
          (''restrictions'', ZOptional (ZArray ZString)),
          (''permissions'', ZOptional (ZArray ZString))])),
      (''authoritativeSources'', ZArray (ZObject
         [(''name'', ZString),
          (''url'', ZOptional ZString),
          (''description'', ZString)])),
      (''disclaimer'', ZString)]"

definition assistantResponseSchema :: zschema where
  "assistantResponseSchema = ZObject
     [(''response'', ZString),
      (''relatedModules'', ZOptional (ZArray ZString)),
      (''suggestedActions'', ZOptional (ZArray ZString))]"

section \<open>The runtime and the environment\<close>

text \<open>
  The built-in functions of the JavaScript runtime that the module calls are parameters:
  \<^verbatim>\<open>JSON.parse\<close> (\<open>None\<close> when it throws a \<^verbatim>\<open>SyntaxError\<close>), the text that
  \<^verbatim>\<open>JSON.stringify(v, null, 2)\<close> contributes to a template literal, and the conversion of a
  value that is not a string to a string. Every theorem holds for all of them.
\<close>

record runtime =
  JSON_parse :: "string \<Rightarrow> jsval option"
  JSON_stringify :: "jsval \<Rightarrow> string"
  ToString :: "jsval \<Rightarrow> string"

text \<open>
  A request as \<^verbatim>\<open>fetch\<close> receives it; the body on the wire is \<^verbatim>\<open>JSON.stringify(payload)\<close>.
  A call of \<^verbatim>\<open>fetch\<close> is rejected (a \<^verbatim>\<open>TypeError\<close>) or answers with a status and a body.
\<close>

record request =
  url :: string
  http_method :: string
  headers :: "(string \<times> string) list"
  payload :: jsval

datatype fetch_result = Rejected | Response nat string

text \<open>The process environment (\<^verbatim>\<open>process.env.GEMINI_API_KEY\<close>) and the network.\<close>

record env =
  GEMINI_API_KEY :: "string option"
  fetch :: "request \<Rightarrow> fetch_result"

text \<open>What a call does: the requests it issued, what it wrote with \<^verbatim>\<open>console.error\<close>, and
  the value it returned (\<open>Inr\<close>) or the error it threw (\<open>Inl\<close>).\<close>

record outcome =
  requests :: "request list"
  console_errors :: "js_error list"
  result :: "js_error + jsval"

text \<open>Sequencing of steps that may throw.\<close>

definition bind_err :: "js_error + 'a \<Rightarrow> ('a \<Rightarrow> js_error + 'b) \<Rightarrow> js_error + 'b" where
  "bind_err r f = (case r of Inl e \<Rightarrow> Inl e | Inr x \<Rightarrow> f x)"

text \<open>A value in a template literal or as the argument of \<^verbatim>\<open>JSON.parse\<close>.\<close>

definition as_string :: "runtime \<Rightarrow> jsval \<Rightarrow> string" where
  "as_string rt v = (case v of JStr s \<Rightarrow> s | _ \<Rightarrow> ToString rt v)"

text \<open>A status code in a template literal.\<close>

fun show_nat :: "nat \<Rightarrow> string" where
  "show_nat n =
     (if n < 10 then [char_of (48 + n)] else show_nat (n div 10) @ [char_of (48 + n mod 10)])"

text \<open>The lines of a template literal, with the line breaks between them.\<close>

fun join_lines :: "string list \<Rightarrow> string" where
  "join_lines [] = []"
| "join_lines [l] = l"
| "join_lines (l # ls) = l @ CHR 0x0A # join_lines ls"

section \<open>The gateway\<close>

definition default_generationConfig :: "(string \<times> jsval) list" where
  "default_generationConfig =
     [(''temperature'', JNum (Fin (7 / 10))),
      (''topK'', JNum (Fin 40)),
      (''topP'', JNum (Fin (95 / 100))),
      (''maxOutputTokens'', JNum (Fin 8192))]"

definition build_payload :: "string \<Rightarrow> (string \<times> jsval) list \<Rightarrow> jsval" where
  "build_payload prompt modelParams = JObj
     [(''contents'', JArr [JObj [(''parts'', JArr [JObj [(''text'', JStr prompt)]])]]),
      (''generationConfig'', JObj (spread default_generationConfig modelParams))]"

definition build_request :: "string \<Rightarrow> string \<Rightarrow> (string \<times> jsval) list \<Rightarrow> request" where
  "build_request apiKey prompt modelParams =
     \<lparr>url = ''https://generativelanguage.googleapis.com/v1beta/models/gemini-pro:generateContent?key='' @ apiKey,
      http_method = ''POST'',
      headers = [(''Content-Type'', ''application/json'')],
      payload = build_payload prompt modelParams\<rparr>"

text \<open>\<^verbatim>\<open>data.candidates[0].content.parts[0].text\<close>\<close>

definition text_content :: "jsval \<Rightarrow> js_error + jsval" where
  "text_content data =
     bind_err (js_get data ''candidates'') (\<lambda>candidates.
     bind_err (js_get candidates ''0'') (\<lambda>candidate.
     bind_err (js_get candidate ''content'') (\<lambda>content.
     bind_err (js_get content ''parts'') (\<lambda>parts.
     bind_err (js_get parts ''0'') (\<lambda>part.
     js_get part ''text'')))))"

text \<open>\<^verbatim>\<open>!data.candidates || data.candidates.length === 0\<close>, given \<^verbatim>\<open>data.candidates\<close>.\<close>

definition no_candidates :: "jsval \<Rightarrow> bool" where
  "no_candidates c = (\<not> truthy c \<or> js_get c ''length'' = Inr (JNum (Fin 0)))"

text \<open>The \<^verbatim>\<open>try\<close> block from the answer of \<^verbatim>\<open>fetch\<close> down to \<^verbatim>\<open>textContent\<close>: the status
  check, \<^verbatim>\<open>response.json()\<close>, the candidates check and the extraction.\<close>

definition response_text :: "runtime \<Rightarrow> fetch_result \<Rightarrow> js_error + jsval" where
  "response_text rt r =
     (case r of
        Rejected \<Rightarrow> Inl TypeError
      | Response status body \<Rightarrow>
          (if \<not> (200 \<le> status \<and> status \<le> 299)
           then Inl (Error (''Gemini API error: '' @ show_nat status @ '' - '' @ body))
           else (case JSON_parse rt body of
                   None \<Rightarrow> Inl SyntaxError
                 | Some data \<Rightarrow>
                     bind_err (js_get data ''candidates'') (\<lambda>candidates.
                       if no_candidates candidates
                       then Inl (Error ''No response generated from Gemini API'')
                       else text_content data))))"

text \<open>The inner \<^verbatim>\<open>try\<close>: \<^verbatim>\<open>JSON.parse(textContent)\<close>, and the raw text when it throws.\<close>

definition parse_or_raw :: "runtime \<Rightarrow> jsval \<Rightarrow> jsval" where
  "parse_or_raw rt textContent =
     (case JSON_parse rt (as_string rt textContent) of
        Some v \<Rightarrow> v
      | None \<Rightarrow> JObj [(''rawResponse'', textContent)])"

definition read_response :: "runtime \<Rightarrow> fetch_result \<Rightarrow> js_error + jsval" where
  "read_response rt r =
     bind_err (response_text rt r) (\<lambda>textContent. Inr (parse_or_raw rt textContent))"

text \<open>
  \<^verbatim>\<open>callGeminiAPI(prompt, context, modelParams)\<close>. The missing key is thrown before the
  \<^verbatim>\<open>try\<close> block; an error inside it is written to the console and thrown again.
\<close>

definition callGeminiAPI ::
  "runtime \<Rightarrow> env \<Rightarrow> string \<Rightarrow> (string \<times> jsval) list \<Rightarrow> (string \<times> jsval) list \<Rightarrow> outcome" where
  "callGeminiAPI rt ev prompt context modelParams =
     (let apiKey = (case GEMINI_API_KEY ev of Some k \<Rightarrow> if k = [] then [] else k | None \<Rightarrow> [])
      in if apiKey = []
         then \<lparr>requests = [], console_errors = [],
               result = Inl (Error ''Gemini API key not found. Please set the GEMINI_API_KEY environment variable.'')\<rparr>
         else let req = build_request apiKey prompt modelParams;
                  r = read_response rt (fetch ev req)
              in \<lparr>requests = [req],
                  console_errors = (case r of Inl e \<Rightarrow> [e] | Inr v \<Rightarrow> []),
                  result = r\<rparr>)"

section \<open>The feature operations\<close>

text \<open>\<^verbatim>\<open>const result = await callGeminiAPI(prompt); return schema.parse(result);\<close>\<close>

definition parse_result :: "zschema \<Rightarrow> outcome \<Rightarrow> outcome" where
  "parse_result schema out =
     out\<lparr>result := bind_err (result out) (zparse schema)\<rparr>"

definition analyzeCalendarConflicts_prompt :: "runtime \<Rightarrow> jsval \<Rightarrow> string" where
  \<open>analyzeCalendarConflicts_prompt rt events =
     join_lines
     ['''',
      ''    You are an AI assistant for a digital nomad planner application. Analyze these calendar events:'',
      ''    '']
     @ JSON_stringify rt events @
     join_lines
     ['''',
      ''    '',
      ''    Identify any conflicts, especially between work and travel events. Explain the specific issues, '',
      ''    and suggest three alternative scheduling options that minimize disruption. '',
      ''    '',
      ''    Format your response as JSON with these fields:'',
      ''    {'',
      ''      "hasConflict": boolean,'',
      ''      "conflictDetails": string (only if hasConflict is true),'',
      ''      "suggestedSolutions": ['',
      ''        {'',
      ''          "description": string,'',
      ''          "pros": [string],'',
      ''          "cons": [string]'',
      ''        }'',
      ''      ] (only if hasConflict is true)'',
      ''    }'',
      ''  '']\<close>

definition analyzeCalendarConflicts :: "runtime \<Rightarrow> env \<Rightarrow> jsval \<Rightarrow> outcome" where
  "analyzeCalendarConflicts rt ev events =
     parse_result conflictAnalysisSchema
       (callGeminiAPI rt ev (analyzeCalendarConflicts_prompt rt events) [] [])"

definition getCoworkingRecommendations_prompt :: "runtime \<Rightarrow> jsval \<Rightarrow> string" where
  \<open>getCoworkingRecommendations_prompt rt preferences =
     join_lines
     ['''',
      ''    You are an AI assistant for a digital nomad planner application. Based on the following user preferences and location data:'',
      ''    '']
     @ JSON_stringify rt preferences @
     join_lines
     ['''',
      ''    '',
      ''    Recommend three suitable co-working spaces, with detailed information about each option '',
      ''    including why it matches the user's criteria, any potential drawbacks, and a final ranking. '',
      ''    '',
      ''    Format your response as JSON with this structure:'',
      ''    {'',
      ''      "recommendations": ['',
      ''        {'',
      ''          "name": string,'',
      ''          "location": string,'',
      ''          "rating": string,'',
      ''          "price": string,'',
      ''          "internetSpeed": string,'',
      ''          "amenities": [string],'',
      ''          "matchingCriteria": [string],'',
      ''          "potentialDrawbacks": [string],'',
      ''          "rank": number (1-5)'',
      ''        }'',
      ''      ],'',
      ''      "recommendationSummary": string'',
      ''    }'',
      ''  '']\<close>

definition getCoworkingRecommendations :: "runtime \<Rightarrow> env \<Rightarrow> jsval \<Rightarrow> outcome" where
  "getCoworkingRecommendations rt ev preferences =
     parse_result coworkingRecommendationSchema
       (callGeminiAPI rt ev (getCoworkingRecommendations_prompt rt preferences) [] [])"

definition getTimeZoneRecommendations_prompt :: "runtime \<Rightarrow> jsval \<Rightarrow> string" where
  \<open>getTimeZoneRecommendations_prompt rt teamInfo =
     join_lines
     ['''',
      ''    You are an AI assistant for a digital nomad planner application. The user has team members in the following locations:'',
      ''    '']
     @ JSON_stringify rt teamInfo @
     join_lines
     ['''',
      ''    '',
      ''    Suggest three optimal time slots that maximize team member waking hours (7 AM - 10 PM local time).'',
      ''    Include reasoning for each suggestion and identify which team members might be most inconvenienced by each option.'',
      ''    '',
      ''    Format your response as JSON with this structure:'',
      ''    {'',
      ''      "optimalMeetingTimes": ['',
      ''        {'',
      ''          "startTime": string (ISO format),'',
      ''          "endTime": string (ISO format),'',
      ''          "impactAssessment": ['',
      ''            {'',
      ''              "location": string,'',
      ''              "localTime": string,'',
      ''              "impact": string (Optimal/Acceptable/Challenging)'',
      ''            }'',
      ''          ],'',
      ''          "reasoning": string'',
      ''        }'',
      ''      ],'',
      ''      "jetlagManagementTips": [string] (optional)'',
      ''    }'',
      ''  '']\<close>

definition getTimeZoneRecommendations :: "runtime \<Rightarrow> env \<Rightarrow> jsval \<Rightarrow> outcome" where
  "getTimeZoneRecommendations rt ev teamInfo =
     parse_result timeZoneRecommendationSchema
       (callGeminiAPI rt ev (getTimeZoneRecommendations_prompt rt teamInfo) [] [])"

definition analyzeBudget_prompt :: "runtime \<Rightarrow> jsval \<Rightarrow> string" where
  \<open>analyzeBudget_prompt rt expenseData =
     join_lines
     ['''',
      ''    You are an AI assistant for a digital nomad planner application. Analyze this user's expense data:'',
      ''    '']
     @ JSON_stringify rt expenseData @
     join_lines
     ['''',
      ''    '',
      ''    Categorize each expense as either work-related, travel-related, or mixed. Provide a detailed '',
      ''    analysis of their spending patterns, compare it to typical digital nomad costs in that location, '',
      ''    and suggest three specific ways they could optimize their budget.'',
      ''    '',
      ''    Format your response as JSON with this structure:'',
      ''    {'',
      ''      "categorizedExpenses": ['',
      ''        {'',
      ''          "category": string,'',
      ''          "amount": number,'',
      ''          "percentage": number,'',
      ''          "workRelated": boolean'',
      ''        }'',
      ''      ],'',
      ''      "comparisonToAverage": {'',
      ''        "status": string (Above average/Below average/Average),'',
      ''        "details": string'',
      ''      },'',
      ''      "recommendations": ['',
      ''        {'',
      ''          "description": string,'',
      ''          "potentialSavings": number,'',
      ''          "implementationDifficulty": string (Easy/Medium/Hard)'',
      ''        }'',
      ''      ]'',
      ''    }'',
      ''  '']\<close>

definition analyzeBudget :: "runtime \<Rightarrow> env \<Rightarrow> jsval \<Rightarrow> outcome" where
  "analyzeBudget rt ev expenseData =
     parse_result budgetAnalysisSchema
       (callGeminiAPI rt ev (analyzeBudget_prompt rt expenseData) [] [])"

definition getCommunityRecommendations_prompt :: "runtime \<Rightarrow> jsval \<Rightarrow> string" where
  \<open>getCommunityRecommendations_prompt rt userProfile =
     join_lines
     ['''',
      ''    You are an AI assistant for a digital nomad planner application. The user has provided the following information:'',
      ''    '']
     @ JSON_stringify rt userProfile @
     join_lines
     ['''',
      ''    '',
      ''    Recommend five specific community events or groups they should connect with in their location, '',
      ''    including a detailed explanation of why each recommendation matches their profile, specific contact '',
      ''    methods or locations, and best approaches for making meaningful connections.'',
      ''    '',
      ''    Format your response as JSON with this structure:'',
      ''    {'',
      ''      "recommendations": ['',
      ''        {'',
      ''          "name": string,'',
      ''          "type": string,'',
      ''          "relevanceScore": number (1-10),'',
      ''          "description": string,'',
      ''          "contactMethod": string,'',
      ''          "matchingInterests": [string],'',
      ''          "networkingApproach": string'',
      ''        }'',
      ''      ]'',
      ''    }'',
      ''  '']\<close>

definition getCommunityRecommendations :: "runtime \<Rightarrow> env \<Rightarrow> jsval \<Rightarrow> outcome" where
  "getCommunityRecommendations rt ev userProfile =
     parse_result communityRecommendationSchema
       (callGeminiAPI rt ev (getCommunityRecommendations_prompt rt userProfile) [] [])"

definition getLegalResources_prompt :: "runtime \<Rightarrow> jsval \<Rightarrow> string" where
  \<open>getLegalResources_prompt rt question =
     join_lines
     ['''',
      ''    You are an AI assistant for a digital nomad planner application. The user has asked:'',
      ''    "'']
     @ as_string rt question @
     join_lines
     [''"'',
      ''    '',
      ''    Provide comprehensive information about relevant visa options, tax considerations, and work legality '',
      ''    for digital nomads. Format your response with clear sections, highlighting key requirements, application '',
      ''    processes, timelines, and authoritative sources where they can find official information.'',
      ''    '',
      ''    Make clear you're providing general information, not legal advice. Format as structured JSON with this structure:'',
      ''    {'',
      ''      "visaRequirements": {'',
      ''        "requiredVisa": string,'',
      ''        "stayDuration": string,'',
      ''        "applicationProcess": string,'',
      ''        "requiredDocuments": [string],'',
      ''        "processingTime": string,'',
      ''        "fees": string'',
      ''      },'',
      ''      "taxImplications": {'',
      ''        "taxStatus": string,'',
      ''        "reportingRequirements": string,'',
      ''        "treatiesSummary": string,'',
      ''        "keyConsiderations": [string]'',
      ''      },'',
      ''      "workLegality": {'',
      ''        "legalStatus": string,'',
      ''        "restrictions": [string],'',
      ''        "permissions": [string]'',
      ''      },'',
      ''      "authoritativeSources": ['',
      ''        {'',
      ''          "name": string,'',
      ''          "url": string,'',
      ''          "description": string'',
      ''        }'',
      ''      ],'',
      ''      "disclaimer": string'',
      ''    }'',
      ''  '']\<close>

text \<open>\<^verbatim>\<open>query.question\<close> throws when \<^verbatim>\<open>query\<close> is \<^verbatim>\<open>undefined\<close> or \<^verbatim>\<open>null\<close>, before the gateway is called.\<close>

definition getLegalResources :: "runtime \<Rightarrow> env \<Rightarrow> jsval \<Rightarrow> outcome" where
  "getLegalResources rt ev query =
     (case js_get query ''question'' of
        Inl e \<Rightarrow> \<lparr>requests = [], console_errors = [], result = Inl e\<rparr>
      | Inr question \<Rightarrow>
          parse_result legalResourceSchema
            (callGeminiAPI rt ev (getLegalResources_prompt rt question) [] []))"

definition getAssistantResponse_prompt :: "runtime \<Rightarrow> string \<Rightarrow> string" where
  \<open>getAssistantResponse_prompt rt query =
     join_lines
     ['''',
      ''    You are an AI assistant for a digital nomad planner application. The user has asked:'',
      ''    "'']
     @ query @
     join_lines
     [''"'',
      ''    '',
      ''    Provide a helpful response addressing their question. Focus on being concise, informative, and actionable.'',
      ''    '',
      ''    Format your response as JSON with this structure:'',
      ''    {'',
      ''      "response": string,'',
      ''      "relatedModules": [string] (optional),'',
      ''      "suggestedActions": [string] (optional)'',
      ''    }'',
      ''  '']\<close>

definition getAssistantResponse :: "runtime \<Rightarrow> env \<Rightarrow> string \<Rightarrow> outcome" where
  "getAssistantResponse rt ev query =
     parse_result assistantResponseSchema
       (callGeminiAPI rt ev (getAssistantResponse_prompt rt query) [] [])"

section \<open>Notions used to state the properties\<close>

text \<open>A schema that rejects \<^verbatim>\<open>undefined\<close>: every schema but an optional one.\<close>

fun required :: "zschema \<Rightarrow> bool" where
  "required (ZOptional s) = False"
| "required s = True"

text \<open>
  A value misses a required field of a schema when an object in it, at a place where the
  schema has an object, lacks a key that the schema declares and does not mark optional.
\<close>

fun missing_required :: "zschema \<Rightarrow> jsval \<Rightarrow> bool" where
  "missing_required (ZObject shape) v =
     (case v of
        JObj kvs \<Rightarrow>
          list_ex (\<lambda>(k, s). (required s \<and> \<not> js_has kvs k) \<or>
                             (js_has kvs k \<and> missing_required s (js_own kvs k))) shape
      | _ \<Rightarrow> False)"
| "missing_required (ZArray s) v =
     (case v of JArr xs \<Rightarrow> list_ex (missing_required s) xs | _ \<Rightarrow> False)"
| "missing_required (ZOptional s) v = (v \<noteq> JUndefined \<and> missing_required s v)"
| "missing_required s v = False"

text \<open>
  A value matches a schema when it has the shape the schema describes: a string, a boolean
  or a finite number within the bounds where the schema says so, one of the listed strings
  for an enumeration, an array of matching elements, and an object in which every declared
  field is present with a matching value, or is absent and optional. Fields that the schema
  does not declare are not looked at.
\<close>

fun within_bound :: "rat \<Rightarrow> zcheck \<Rightarrow> bool" where
  "within_bound q (Min b) = (b \<le> q)"
| "within_bound q (Max b) = (q \<le> b)"

fun matches :: "zschema \<Rightarrow> jsval \<Rightarrow> bool" where
  "matches ZString v = (case v of JStr s \<Rightarrow> True | _ \<Rightarrow> False)"
| "matches (ZNumber cs) v =
     (case v of
        JNum n \<Rightarrow> (case n of Fin q \<Rightarrow> list_all (within_bound q) cs | _ \<Rightarrow> False)
      | _ \<Rightarrow> False)"
| "matches ZBoolean v = (case v of JBool b \<Rightarrow> True | _ \<Rightarrow> False)"
| "matches (ZEnum vals) v = (case v of JStr s \<Rightarrow> s \<in> set vals | _ \<Rightarrow> False)"
| "matches (ZArray s) v = (case v of JArr xs \<Rightarrow> list_all (matches s) xs | _ \<Rightarrow> False)"
| "matches (ZObject shape) v =
     (case v of
        JObj kvs \<Rightarrow>
          list_all (\<lambda>(k, s). if js_has kvs k then matches s (js_own kvs k) else \<not> required s) shape
      | _ \<Rightarrow> False)"
| "matches (ZOptional s) v = (v = JUndefined \<or> matches s v)"





text \<open>A number within the closed interval between two finite bounds.\<close>

fun in_range :: "rat \<Rightarrow> rat \<Rightarrow> jsnum \<Rightarrow> bool" where
  "in_range lo hi (Fin q) = (lo \<le> q \<and> q \<le> hi)"
| "in_range lo hi n = False"

text \<open>\<^verbatim>\<open>payload.generationConfig\<close> and \<^verbatim>\<open>payload.contents[0].parts[0].text\<close> of a request.\<close>

definition sent_config :: "request \<Rightarrow> js_error + jsval" where
  "sent_config req = js_get (payload req) ''generationConfig''"

definition sent_prompt :: "request \<Rightarrow> js_error + jsval" where
  "sent_prompt req =
     bind_err (js_get (payload req) ''contents'') (\<lambda>contents.
     bind_err (js_get contents ''0'') (\<lambda>content.
     bind_err (js_get content ''parts'') (\<lambda>parts.
     bind_err (js_get parts ''0'') (\<lambda>part.
     js_get part ''text''))))"

section \<open>A concrete runtime and environment\<close>

text \<open>
  For the concrete instances below: an upstream whose answer has one candidate carrying a
  given text, and a runtime whose parser knows that answer and the text.
\<close>

text \<open>A text that is not JSON.\<close>

definition demo_prose :: string where
  "demo_prose = ''Sorry, I cannot help with that.''"

text \<open>A string as a JSON string literal, for texts of printable characters.\<close>

definition json_quote :: "string \<Rightarrow> string" where
  "json_quote t =
     CHR 0x22 # concat (map (\<lambda>c. if c = CHR 0x22 \<or> c = CHR 0x5C then [CHR 0x5C, c] else [c]) t)
     @ [CHR 0x22]"

text \<open>The body of an answer with one candidate, and the value that \<^verbatim>\<open>response.json()\<close> gives
  for it.\<close>

definition demo_body :: "string \<Rightarrow> string" where
  \<open>demo_body t = ''{"candidates":[{"content":{"parts":[{"text":'' @ json_quote t @ ''}]}}]}''\<close>

definition demo_data :: "string \<Rightarrow> jsval" where
  "demo_data t =
     JObj [(''candidates'', JArr [JObj [(''content'', JObj [(''parts'', JArr [JObj [(''text'', JStr t)]])])]])]"

text \<open>
  A runtime for one text: \<open>parsed\<close> is what \<^verbatim>\<open>JSON.parse\<close> gives for the text, \<open>None\<close> when the
  text is not JSON. The parser knows the text and the answer that carries it. The serialiser
  is that of \<^verbatim>\<open>JSON.stringify\<close> on the empty array and on \<^verbatim>\<open>null\<close>, the two values it is
  given below.
\<close>

definition demo_runtime :: "string \<Rightarrow> jsval option \<Rightarrow> runtime" where
  "demo_runtime t parsed =
     \<lparr>JSON_parse = (\<lambda>s. if s = demo_body t then Some (demo_data t)
                         else if s = t then parsed else None),
      JSON_stringify = (\<lambda>v. if v = JArr [] then ''[]'' else ''null''),
      ToString = (\<lambda>v. ''undefined'')\<rparr>"

text \<open>An environment with a credential, whose upstream answers every request with the given
  body, and one without a credential.\<close>

definition demo_env :: "string \<Rightarrow> env" where
  "demo_env body = \<lparr>GEMINI_API_KEY = Some ''secret'', fetch = (\<lambda>req. Response 200 body)\<rparr>"

definition no_key_env :: env where
  "no_key_env = \<lparr>GEMINI_API_KEY = None, fetch = (\<lambda>req. Response 200 (demo_body ''{}''))\<rparr>"

section \<open>Facts about the validators and the gateway\<close>



lemma collect_Inl_mem: "Inl e \<in> set rs \<Longrightarrow> \<exists>e'. collect rs = Inl e'"
  by (induction rs) (auto split: sum.splits)

lemma collect_Inl_from: "collect rs = Inl e \<Longrightarrow> Inl e \<in> set rs"
  by (induction rs) (auto split: sum.splits)

text \<open>A validator throws nothing but a \<^verbatim>\<open>ZodError\<close>.\<close>

lemma zparse_error: "zparse s v = Inl e \<Longrightarrow> e = ZodError"
proof (induction s v arbitrary: e rule: zparse.induct)
  case (5 s v)
  then show ?case
    by (auto split: jsval.splits sum.splits if_splits dest!: collect_Inl_from)
next
  case (6 shape v)
  then show ?case
    by (auto split: jsval.splits sum.splits if_splits prod.splits dest!: collect_Inl_from)
qed (auto split: jsval.splits if_splits)

text \<open>The gateway never throws one.\<close>

lemma js_get_not_Zod: "js_get v k \<noteq> Inl ZodError"
  by (cases v) (auto split: option.splits)

lemma text_content_not_Zod: "text_content d \<noteq> Inl ZodError"
  using js_get_not_Zod by (auto simp: text_content_def bind_err_def split: sum.splits)

lemma read_response_not_Zod: "read_response rt r \<noteq> Inl ZodError"
  using text_content_not_Zod js_get_not_Zod
  by (auto simp: read_response_def response_text_def bind_err_def
           split: fetch_result.splits sum.splits option.splits if_splits)

lemma gateway_not_Zod: "result (callGeminiAPI rt ev p c m) \<noteq> Inl ZodError"
  using read_response_not_Zod by (auto simp: callGeminiAPI_def Let_def)

text \<open>With a credential, the gateway issues one request and reads its answer.\<close>

lemma call_with_key:
  assumes "GEMINI_API_KEY ev = Some key" "key \<noteq> []"
  shows "result (callGeminiAPI rt ev prompt context modelParams) =
           read_response rt (fetch ev (build_request key prompt modelParams))"
    and "requests (callGeminiAPI rt ev prompt context modelParams) =
           [build_request key prompt modelParams]"
  using assms by (auto simp: callGeminiAPI_def Let_def)

lemma gateway_raw:
  assumes "GEMINI_API_KEY ev = Some key" and "key \<noteq> []"
    and "response_text rt (fetch ev (build_request key prompt modelParams)) = Inr textContent"
    and "JSON_parse rt (as_string rt textContent) = None"
  shows "result (callGeminiAPI rt ev prompt context modelParams) =
           Inr (JObj [(''rawResponse'', textContent)])"
  using assms
  by (simp add: call_with_key read_response_def bind_err_def parse_or_raw_def)

lemma gateway_parsed:
  assumes "GEMINI_API_KEY ev = Some key" and "key \<noteq> []"
    and "response_text rt (fetch ev (build_request key prompt modelParams)) = Inr textContent"
    and "JSON_parse rt (as_string rt textContent) = Some v"
  shows "result (callGeminiAPI rt ev prompt context modelParams) = Inr v"
  using assms
  by (simp add: call_with_key read_response_def bind_err_def parse_or_raw_def)

text \<open>The concrete upstream: its answer carries the text it was built from.\<close>

lemma json_quote_length: "length t < length (json_quote t)"
proof -
  have "length t \<le> length (concat (map (\<lambda>c. if c = CHR 0x22 \<or> c = CHR 0x5C then [CHR 0x5C, c] else [c]) t))"
    by (induction t) auto
  then show ?thesis by (simp add: json_quote_def)
qed

lemma demo_body_neq: "demo_body t \<noteq> t" "t \<noteq> demo_body t"
proof -
  have "length t < length (demo_body t)"
    using json_quote_length [of t] by (simp add: demo_body_def)
  then show "demo_body t \<noteq> t" "t \<noteq> demo_body t" by auto
qed

lemma demo_parse_body: "JSON_parse (demo_runtime t parsed) (demo_body t) = Some (demo_data t)"
  by (simp add: demo_runtime_def)

lemma demo_parse_text: "JSON_parse (demo_runtime t parsed) t = parsed"
  by (simp add: demo_runtime_def demo_body_neq)

lemma demo_data_text:
  "js_get (demo_data t) ''candidates'' =
     Inr (JArr [JObj [(''content'', JObj [(''parts'', JArr [JObj [(''text'', JStr t)]])])]])"
  "text_content (demo_data t) = Inr (JStr t)"
  by (simp_all add: demo_data_def text_content_def bind_err_def js_own_def array_index_def
      digit_val_def)

lemma demo_text:
  "response_text (demo_runtime t parsed) (Response 200 (demo_body t)) = Inr (JStr t)"
  by (simp add: response_text_def demo_parse_body demo_data_text bind_err_def no_candidates_def)

lemma demo_key: "GEMINI_API_KEY (demo_env body) = Some ''secret''" "fetch (demo_env body) req = Response 200 body"
  by (simp_all add: demo_env_def)

text \<open>The object spread, key by key.\<close>

lemma map_of_spread:
  "distinct (map fst extra) \<Longrightarrow>
   map_of (spread base extra) k = (case map_of extra k of Some v \<Rightarrow> Some v | None \<Rightarrow> map_of base k)"
  unfolding spread_def
proof (induction extra arbitrary: base)
  case Nil
  then show ?case by simp
next
  case (Cons a extra)
  obtain k' v' where a: "a = (k', v')" by (cases a)
  from Cons.prems a have d: "distinct (map fst extra)" and nk: "k' \<notin> fst ` set extra" by auto
  have "map_of extra k' = None" using nk by (simp add: map_of_eq_None_iff)
  then show ?case
    using Cons.IH[OF d, of "AList.update k' v' base"] a
    by (auto simp: update_conv' split: option.splits)
qed

text \<open>A failing element fails the array, a failing field fails the object.\<close>

lemma zparse_array_fail:
  assumes "x \<in> set xs" and "zparse s x = Inl e"
  shows "zparse (ZArray s) (JArr xs) = Inl ZodError"
proof -
  have "Inl e \<in> set (map (zparse s) xs)" using assms by force
  then obtain e' where e': "collect (map (zparse s) xs) = Inl e'"
    using collect_Inl_mem by blast
  then have "zparse (ZArray s) (JArr xs) = Inl e'" by simp
  then show ?thesis using zparse_error by blast
qed

lemma zparse_object_fail:
  assumes "(k, s) \<in> set shape" and "zparse s (js_own kvs k) = Inl e"
  shows "zparse (ZObject shape) (JObj kvs) = Inl ZodError"
proof -
  let ?f = "\<lambda>(k, s). case zparse s (js_own kvs k) of
                         Inl e \<Rightarrow> Inl e
                       | Inr r \<Rightarrow> Inr (field_out kvs k r)"
  have "?f (k, s) = Inl e" using assms(2) by simp
  then have "Inl e \<in> set (map ?f shape)" using assms(1) by force
  then obtain e' where e': "collect (map ?f shape) = Inl e'"
    using collect_Inl_mem by blast
  then have "zparse (ZObject shape) (JObj kvs) = Inl e'" by simp
  then show ?thesis using zparse_error by blast
qed

lemma number_out_of_range:
  assumes "\<not> in_range lo hi n"
  shows "zparse (ZNumber [Min lo, Max hi]) (JNum n) = Inl ZodError"
  using assms by (cases n) auto

lemma field_out_of_range:
  assumes "(k, ZNumber [Min lo, Max hi]) \<in> set shape"
    and "js_own kvs k = JNum n" and "\<not> in_range lo hi n"
  shows "zparse (ZObject shape) (JObj kvs) = Inl ZodError"
proof -
  have "zparse (ZNumber [Min lo, Max hi]) (js_own kvs k) = Inl ZodError"
    using assms(2,3) number_out_of_range by simp
  with assms(1) show ?thesis by (rule zparse_object_fail)
qed

lemma listed_entry_fails:
  assumes "(k, ZArray s) \<in> set shape" and "js_own kvs k = JArr xs"
    and "x \<in> set xs" and "zparse s x = Inl e"
  shows "zparse (ZObject shape) (JObj kvs) = Inl ZodError"
proof -
  have "zparse (ZArray s) (js_own kvs k) = Inl ZodError"
    using assms(2-4) zparse_array_fail by simp
  with assms(1) show ?thesis by (rule zparse_object_fail)
qed

text \<open>A value that misses a required field is rejected.\<close>

lemma required_rejects_undefined: "required s \<Longrightarrow> zparse s JUndefined = Inl ZodError"
  by (cases s) auto

lemma js_own_absent: "\<not> js_has kvs k \<Longrightarrow> js_own kvs k = JUndefined"
  by (simp add: js_has_def js_own_def map_of_eq_None_iff[THEN iffD2])

lemma missing_required_fails: "missing_required s v \<Longrightarrow> zparse s v = Inl ZodError"
proof (induction s v rule: zparse.induct)
  case (5 s v)
  from "5.prems" obtain xs x where v: "v = JArr xs" and x: "x \<in> set xs" "missing_required s x"
    by (auto simp: list_ex_iff split: jsval.splits)
  have "zparse s x = Inl ZodError" using "5.IH" v x by blast
  then show ?case using v x(1) zparse_array_fail by blast
next
  case (6 shape v)
  from "6.prems" obtain kvs k s where v: "v = JObj kvs" and ks: "(k, s) \<in> set shape"
    and c: "(required s \<and> \<not> js_has kvs k) \<or> (js_has kvs k \<and> missing_required s (js_own kvs k))"
    by (auto simp: list_ex_iff split: jsval.splits)
  have "zparse s (js_own kvs k) = Inl ZodError"
  proof (cases "js_has kvs k")
    case True
    then show ?thesis using c "6.IH" v ks by blast
  next
    case False
    then show ?thesis using c required_rejects_undefined js_own_absent by simp
  qed
  then show ?case using v ks zparse_object_fail by blast
next
  case (7 s v)
  then show ?case by simp
qed simp_all

lemma parse_result_fails:
  "result out = Inr v \<Longrightarrow> zparse S v = Inl ZodError \<Longrightarrow> result (parse_result S out) = Inl ZodError"
  by (simp add: parse_result_def bind_err_def)









text \<open>The concrete upstream answering with a text that the parser knows.\<close>

lemma demo_call:
  "result (callGeminiAPI (demo_runtime t (Some v)) (demo_env (demo_body t)) p c m) = Inr v"
  by (rule gateway_parsed [where key = "''secret''" and textContent = "JStr t"])
    (simp_all add: demo_key demo_text demo_parse_text as_string_def)

text \<open>The raw-text object misses a required field of each schema.\<close>

lemma raw_rejected:
  "zparse conflictAnalysisSchema (JObj [(''rawResponse'', t)]) = Inl ZodError"
  "zparse coworkingRecommendationSchema (JObj [(''rawResponse'', t)]) = Inl ZodError"
  "zparse timeZoneRecommendationSchema (JObj [(''rawResponse'', t)]) = Inl ZodError"
  "zparse budgetAnalysisSchema (JObj [(''rawResponse'', t)]) = Inl ZodError"
  "zparse communityRecommendationSchema (JObj [(''rawResponse'', t)]) = Inl ZodError"
  "zparse legalResourceSchema (JObj [(''rawResponse'', t)]) = Inl ZodError"
  "zparse assistantResponseSchema (JObj [(''rawResponse'', t)]) = Inl ZodError"
  by (rule missing_required_fails,
      simp add: js_has_def conflictAnalysisSchema_def coworkingRecommendationSchema_def
        timeZoneRecommendationSchema_def budgetAnalysisSchema_def
        communityRecommendationSchema_def legalResourceSchema_def assistantResponseSchema_def)+

lemma raw_then_parse:
  assumes "GEMINI_API_KEY ev = Some key" and "key \<noteq> []"
    and "JSON_parse rt (as_string rt textContent) = None"
    and "response_text rt (fetch ev (build_request key prompt [])) = Inr textContent"
    and "zparse S (JObj [(''rawResponse'', textContent)]) = Inl ZodError"
  shows "result (parse_result S (callGeminiAPI rt ev prompt [] [])) = Inl ZodError"
  using gateway_raw [OF assms(1,2,4,3)] assms(5) by (rule parse_result_fails)

text \<open>Validation leaves the requests as they are; a request carries the prompt.\<close>

lemma requests_parse_result: "requests (parse_result S out) = requests out"
  by (simp add: parse_result_def)

lemma demo_requests:
  "requests (callGeminiAPI rt (demo_env body) p c m) = [build_request ''secret'' p m]"
  by (rule call_with_key(2)) (simp_all add: demo_env_def)

lemma build_request_prompt: "sent_prompt (build_request key p m) = Inr (JStr p)"
  by (simp add: sent_prompt_def build_request_def build_payload_def
      bind_err_def js_own_def array_index_def digit_val_def)


lemmas eval_defs =
  conflictAnalysisSchema_def coworkingRecommendationSchema_def
  timeZoneRecommendationSchema_def budgetAnalysisSchema_def communityRecommendationSchema_def
  legalResourceSchema_def assistantResponseSchema_def
  js_own_def js_has_def field_out_def














lemma pass_through: "result out = Inl e \<Longrightarrow> result (parse_result S out) = Inl e"
  by (simp add: parse_result_def bind_err_def)



lemma demo_stringify:
  "JSON_stringify (demo_runtime t parsed) (JArr []) = ''[]''"
  "JSON_stringify (demo_runtime t parsed) JNull = ''null''"
  by (simp_all add: demo_runtime_def)

lemma no_key_call:
  "result (callGeminiAPI rt no_key_env p c m) = Inl (Error ''Gemini API key not found. Please set the GEMINI_API_KEY environment variable.'')"
  by (simp add: callGeminiAPI_def no_key_env_def)

lemma gateway_requests:
  "map sent_prompt (requests (callGeminiAPI rt ev p c m)) =
     (if GEMINI_API_KEY ev = None \<or> GEMINI_API_KEY ev = Some [] then [] else [Inr (JStr p)])"
  by (auto simp: callGeminiAPI_def Let_def build_request_prompt split: option.splits)

text \<open>The prompt of an operation: its text, and the requests that carry it.\<close>

lemma prompt_embeds:
  "\<exists>pre post. \<forall>rt data. analyzeCalendarConflicts_prompt rt data = pre @ JSON_stringify rt data @ post"
  "\<exists>pre post. \<forall>rt data. getCoworkingRecommendations_prompt rt data = pre @ JSON_stringify rt data @ post"
  "\<exists>pre post. \<forall>rt data. getTimeZoneRecommendations_prompt rt data = pre @ JSON_stringify rt data @ post"
  "\<exists>pre post. \<forall>rt data. analyzeBudget_prompt rt data = pre @ JSON_stringify rt data @ post"
  "\<exists>pre post. \<forall>rt data. getCommunityRecommendations_prompt rt data = pre @ JSON_stringify rt data @ post"
  "\<exists>pre post. \<forall>rt question. getLegalResources_prompt rt question = pre @ as_string rt question @ post"
  "\<exists>pre post. \<forall>rt message. getAssistantResponse_prompt rt message = pre @ message @ post"
  unfolding analyzeCalendarConflicts_prompt_def getCoworkingRecommendations_prompt_def
    getTimeZoneRecommendations_prompt_def analyzeBudget_prompt_def
    getCommunityRecommendations_prompt_def getLegalResources_prompt_def
    getAssistantResponse_prompt_def
  by (intro exI allI, rule refl)+

lemma op_sent_prompts:
  "map sent_prompt (requests (analyzeCalendarConflicts rt ev events)) =
      (if GEMINI_API_KEY ev = None \<or> GEMINI_API_KEY ev = Some [] then []
       else [Inr (JStr (analyzeCalendarConflicts_prompt rt events))])"
  "map sent_prompt (requests (getCoworkingRecommendations rt ev preferences)) =
      (if GEMINI_API_KEY ev = None \<or> GEMINI_API_KEY ev = Some [] then []
       else [Inr (JStr (getCoworkingRecommendations_prompt rt preferences))])"
  "map sent_prompt (requests (getTimeZoneRecommendations rt ev teamInfo)) =
      (if GEMINI_API_KEY ev = None \<or> GEMINI_API_KEY ev = Some [] then []
       else [Inr (JStr (getTimeZoneRecommendations_prompt rt teamInfo))])"
  "map sent_prompt (requests (analyzeBudget rt ev expenseData)) =
      (if GEMINI_API_KEY ev = None \<or> GEMINI_API_KEY ev = Some [] then []
       else [Inr (JStr (analyzeBudget_prompt rt expenseData))])"
  "map sent_prompt (requests (getCommunityRecommendations rt ev userProfile)) =
      (if GEMINI_API_KEY ev = None \<or> GEMINI_API_KEY ev = Some [] then []
       else [Inr (JStr (getCommunityRecommendations_prompt rt userProfile))])"
  "map sent_prompt (requests (getLegalResources rt ev query)) =
      (case js_get query ''question'' of
         Inl e \<Rightarrow> []
       | Inr question \<Rightarrow>
           if GEMINI_API_KEY ev = None \<or> GEMINI_API_KEY ev = Some [] then []
           else [Inr (JStr (getLegalResources_prompt rt question))])"
  "map sent_prompt (requests (getAssistantResponse rt ev message)) =
      (if GEMINI_API_KEY ev = None \<or> GEMINI_API_KEY ev = Some [] then []
       else [Inr (JStr (getAssistantResponse_prompt rt message))])"
  unfolding analyzeCalendarConflicts_def getCoworkingRecommendations_def
      getTimeZoneRecommendations_def analyzeBudget_def getCommunityRecommendations_def
      getLegalResources_def getAssistantResponse_def
  by (simp_all add: requests_parse_result gateway_requests split: sum.splits)

lemma same_prompts:
  assumes "map sent_prompt xs = (if c then [] else [p])"
    and "map sent_prompt ys = (if d then [] else [p])"
  shows "\<forall>r \<in> set xs. \<forall>r' \<in> set ys. sent_prompt r' = sent_prompt r"
proof (intro ballI)
  fix r r' assume "r \<in> set xs" "r' \<in> set ys"
  then have "sent_prompt r \<in> set (map sent_prompt xs)" "sent_prompt r' \<in> set (map sent_prompt ys)"
    by auto
  with assms show "sent_prompt r' = sent_prompt r" by (auto split: if_splits)
qed

lemma op_same_prompts:
  "\<forall>r \<in> set (requests (analyzeCalendarConflicts rt ev events)).
      \<forall>r' \<in> set (requests (analyzeCalendarConflicts rt ev' events)). sent_prompt r' = sent_prompt r"
  "\<forall>r \<in> set (requests (getCoworkingRecommendations rt ev preferences)).
      \<forall>r' \<in> set (requests (getCoworkingRecommendations rt ev' preferences)). sent_prompt r' = sent_prompt r"
  "\<forall>r \<in> set (requests (getTimeZoneRecommendations rt ev teamInfo)).
      \<forall>r' \<in> set (requests (getTimeZoneRecommendations rt ev' teamInfo)). sent_prompt r' = sent_prompt r"
  "\<forall>r \<in> set (requests (analyzeBudget rt ev expenseData)).
      \<forall>r' \<in> set (requests (analyzeBudget rt ev' expenseData)). sent_prompt r' = sent_prompt r"
  "\<forall>r \<in> set (requests (getCommunityRecommendations rt ev userProfile)).
      \<forall>r' \<in> set (requests (getCommunityRecommendations rt ev' userProfile)). sent_prompt r' = sent_prompt r"
  "\<forall>r \<in> set (requests (getLegalResources rt ev query)).
      \<forall>r' \<in> set (requests (getLegalResources rt ev' query)). sent_prompt r' = sent_prompt r"
  "\<forall>r \<in> set (requests (getAssistantResponse rt ev message)).
      \<forall>r' \<in> set (requests (getAssistantResponse rt ev' message)). sent_prompt r' = sent_prompt r"
proof -
  show "\<forall>r \<in> set (requests (getLegalResources rt ev query)).
      \<forall>r' \<in> set (requests (getLegalResources rt ev' query)). sent_prompt r' = sent_prompt r"
  proof (cases "js_get query ''question''")
    case (Inl e)
    with op_sent_prompts(6) [of rt ev query] have "requests (getLegalResources rt ev query) = []"
      by simp
    then show ?thesis by simp
  next
    case (Inr question)
    from op_sent_prompts(6) [of rt ev query] op_sent_prompts(6) [of rt ev' query]
    show ?thesis unfolding Inr sum.case by (rule same_prompts)
  qed
qed (rule same_prompts [OF op_sent_prompts(1) op_sent_prompts(1)]
       same_prompts [OF op_sent_prompts(2) op_sent_prompts(2)]
       same_prompts [OF op_sent_prompts(3) op_sent_prompts(3)]
       same_prompts [OF op_sent_prompts(4) op_sent_prompts(4)]
       same_prompts [OF op_sent_prompts(5) op_sent_prompts(5)]
       same_prompts [OF op_sent_prompts(7) op_sent_prompts(7)])+

section \<open>The raw-text fallback of the gateway\<close>

text \<open>
  Claim C1. When the credential is present and the answer of the upstream is a success from
  which the gateway extracts a text payload, and \<^verbatim>\<open>JSON.parse\<close> rejects that payload, the
  gateway returns the object \<^verbatim>\<open>{rawResponse: <text>}\<close>; it does not throw.
\<close>

theorem raw_fallback:
  assumes "GEMINI_API_KEY ev = Some key" and "key \<noteq> []"
    and "response_text rt (fetch ev (build_request key prompt modelParams)) = Inr textContent"
    and "JSON_parse rt (as_string rt textContent) = None"
  shows "result (callGeminiAPI rt ev prompt context modelParams) =
           Inr (JObj [(''rawResponse'', textContent)])"
  using assms by (rule gateway_raw)

theorem raw_fallback_witness:
  "result (callGeminiAPI (demo_runtime demo_prose None) (demo_env (demo_body demo_prose))
     ''Hello'' [] []) =
     Inr (JObj [(''rawResponse'', JStr ''Sorry, I cannot help with that.'')])"
  using raw_fallback [where rt = "demo_runtime demo_prose None"
      and ev = "demo_env (demo_body demo_prose)"
      and key = "''secret''" and prompt = "''Hello''" and modelParams = "[]"
      and textContent = "JStr demo_prose"]
  by (simp add: demo_key demo_text demo_parse_text as_string_def demo_prose_def)

section \<open>The missing credential\<close>

text \<open>
  Claim C3. When \<^verbatim>\<open>GEMINI_API_KEY\<close> is absent or empty, a call of the gateway throws the
  configuration error and has issued no request.
\<close>

theorem missing_credential_no_request:
  assumes "GEMINI_API_KEY ev = None \<or> GEMINI_API_KEY ev = Some []"
  shows "requests (callGeminiAPI rt ev prompt context modelParams) = [] \<and>
         result (callGeminiAPI rt ev prompt context modelParams) =
           Inl (Error ''Gemini API key not found. Please set the GEMINI_API_KEY environment variable.'')"
  using assms by (auto simp: callGeminiAPI_def)

theorem missing_credential_no_request_witness:
  "length (requests (callGeminiAPI (demo_runtime ''{}'' None) no_key_env ''Hello'' [] [])) = 0 \<and>
   result (callGeminiAPI (demo_runtime ''{}'' None) no_key_env ''Hello'' [] []) =
     Inl (Error ''Gemini API key not found. Please set the GEMINI_API_KEY environment variable.'') \<and>
   length (requests (callGeminiAPI (demo_runtime ''{}'' None)
     (no_key_env\<lparr>GEMINI_API_KEY := Some []\<rparr>) ''Hello'' [] [])) = 0"
  using missing_credential_no_request [where ev = no_key_env
      and rt = "demo_runtime ''{}'' None" and prompt = "''Hello''" and modelParams = "[]"]
    missing_credential_no_request [where ev = "no_key_env\<lparr>GEMINI_API_KEY := Some []\<rparr>"
      and rt = "demo_runtime ''{}'' None" and prompt = "''Hello''" and modelParams = "[]"]
  by (simp add: no_key_env_def)

section \<open>An answer without candidates\<close>

text \<open>
  Claim C4. When the credential is present and the upstream answers with a success status
  and a JSON body whose \<^verbatim>\<open>candidates\<close> is missing, \<^verbatim>\<open>null\<close> or an empty array, the gateway
  throws the error "No response generated from Gemini API", which is not a \<^verbatim>\<open>ZodError\<close>,
  the error of schema validation.
\<close>

theorem no_candidates_error:
  assumes "GEMINI_API_KEY ev = Some key" and "key \<noteq> []"
    and "fetch ev (build_request key prompt modelParams) = Response status body"
    and "200 \<le> status" and "status \<le> 299"
    and "JSON_parse rt body = Some data"
    and "js_get data ''candidates'' = Inr candidates"
    and "candidates = JUndefined \<or> candidates = JNull \<or> candidates = JArr []"
  shows "result (callGeminiAPI rt ev prompt context modelParams) =
           Inl (Error ''No response generated from Gemini API'') \<and>
         result (callGeminiAPI rt ev prompt context modelParams) \<noteq> Inl ZodError"
  using assms
  by (auto simp add: call_with_key read_response_def response_text_def bind_err_def
      no_candidates_def)

theorem no_candidates_error_witness:
  \<open>result (callGeminiAPI (demo_runtime ''{"candidates":[]}'' (Some (JObj [(''candidates'', JArr [])])))
     (demo_env ''{"candidates":[]}'') ''Hello'' [] []) =
     Inl (Error ''No response generated from Gemini API'') \<and>
   result (callGeminiAPI (demo_runtime ''{}'' (Some (JObj []))) (demo_env ''{}'') ''Hello'' [] []) =
     Inl (Error ''No response generated from Gemini API'')\<close>
  using no_candidates_error [where ev = \<open>demo_env ''{"candidates":[]}''\<close>
      and rt = \<open>demo_runtime ''{"candidates":[]}'' (Some (JObj [(''candidates'', JArr [])]))\<close>
      and key = "''secret''" and prompt = "''Hello''" and modelParams = "[]"
      and status = 200 and body = \<open>''{"candidates":[]}''\<close>
      and data = "JObj [(''candidates'', JArr [])]" and candidates = "JArr []"]
    no_candidates_error [where rt = \<open>demo_runtime ''{}'' (Some (JObj []))\<close>
      and ev = \<open>demo_env ''{}''\<close>
      and key = "''secret''" and prompt = "''Hello''" and modelParams = "[]"
      and status = 200 and body = \<open>''{}''\<close>
      and data = "JObj []" and candidates = "JUndefined"]
  by (simp add: demo_key demo_parse_text js_own_def)

section \<open>The generation parameters\<close>

text \<open>
  Claim C7. Every request the gateway issues carries a \<^verbatim>\<open>generationConfig\<close> object in which a
  key that \<^verbatim>\<open>modelParams\<close> has takes the value from \<^verbatim>\<open>modelParams\<close>, and every other key
  has its default: temperature 0.7, topK 40, topP 0.95, maxOutputTokens 8192.
  (\<^verbatim>\<open>modelParams\<close> is an object: its keys are distinct.)
\<close>

theorem generation_config:
  assumes "distinct (map fst modelParams)"
  shows "\<forall>req \<in> set (requests (callGeminiAPI rt ev prompt context modelParams)).
           \<exists>cfg. sent_config req = Inr (JObj cfg) \<and>
             (\<forall>k. map_of cfg k =
                (case map_of modelParams k of
                   Some v \<Rightarrow> Some v
                 | None \<Rightarrow> map_of [(''temperature'', JNum (Fin (7 / 10))),
                                   (''topK'', JNum (Fin 40)),
                                   (''topP'', JNum (Fin (95 / 100))),
                                   (''maxOutputTokens'', JNum (Fin 8192))] k))"
  unfolding default_generationConfig_def [symmetric]
  using map_of_spread [OF assms, of default_generationConfig]
  by (auto simp: callGeminiAPI_def Let_def sent_config_def build_request_def build_payload_def
      js_own_def)

theorem generation_config_witness:
  "map sent_config (requests (callGeminiAPI (demo_runtime ''{}'' None) (demo_env ''{}'') ''Hello'' []
       [(''temperature'', JNum (Fin 0)), (''candidateCount'', JNum (Fin 1))])) =
     [Inr (JObj [(''temperature'', JNum (Fin 0)),
                 (''topK'', JNum (Fin 40)),
                 (''topP'', JNum (Fin (95 / 100))),
                 (''maxOutputTokens'', JNum (Fin 8192)),
                 (''candidateCount'', JNum (Fin 1))])] \<and>
   map sent_config (requests (callGeminiAPI (demo_runtime ''{}'' None) (demo_env ''{}'') ''Hello'' [] [])) =
     [Inr (JObj [(''temperature'', JNum (Fin (7 / 10))),
                 (''topK'', JNum (Fin 40)),
                 (''topP'', JNum (Fin (95 / 100))),
                 (''maxOutputTokens'', JNum (Fin 8192))])]"
  using generation_config [where rt = "demo_runtime ''{}'' None" and ev = "demo_env ''{}''"
      and prompt = "''Hello''"
      and modelParams = "[(''temperature'', JNum (Fin 0)), (''candidateCount'', JNum (Fin 1))]"]
    generation_config [where rt = "demo_runtime ''{}'' None" and ev = "demo_env ''{}''"
      and prompt = "''Hello''" and modelParams = "[]"]
  by (simp add: demo_requests sent_config_def build_request_def
      build_payload_def spread_def default_generationConfig_def js_own_def)

section \<open>The numeric bounds of the schemas\<close>

text \<open>
  Claim C5. A co-working payload one of whose venues has a number outside the interval from
  1 to 5 as its \<^verbatim>\<open>rank\<close> fails \<^verbatim>\<open>coworkingRecommendationSchema\<close>, and a community payload one
  of whose entries has a number outside the interval from 1 to 10 as its \<^verbatim>\<open>relevanceScore\<close>
  fails \<^verbatim>\<open>communityRecommendationSchema\<close>.
\<close>

theorem bounds_enforced:
  "(js_own kvs ''recommendations'' = JArr xs \<and> JObj venue \<in> set xs \<and>
      js_own venue ''rank'' = JNum n \<and> \<not> in_range 1 5 n
      \<longrightarrow> zparse coworkingRecommendationSchema (JObj kvs) = Inl ZodError) \<and>
   (js_own kvs ''recommendations'' = JArr xs \<and> JObj entry \<in> set xs \<and>
      js_own entry ''relevanceScore'' = JNum n \<and> \<not> in_range 1 10 n
      \<longrightarrow> zparse communityRecommendationSchema (JObj kvs) = Inl ZodError)"
proof (intro conjI impI)
  assume a: "js_own kvs ''recommendations'' = JArr xs \<and> JObj venue \<in> set xs \<and>
      js_own venue ''rank'' = JNum n \<and> \<not> in_range 1 5 n"
  let ?venue = "[(''name'', ZString), (''location'', ZString), (''rating'', ZOptional ZString),
          (''price'', ZString), (''internetSpeed'', ZOptional ZString),
          (''amenities'', ZArray ZString), (''matchingCriteria'', ZArray ZString),
          (''potentialDrawbacks'', ZArray ZString), (''rank'', ZNumber [Min 1, Max 5])]"
  have m: "(''rank'', ZNumber [Min 1, Max 5]) \<in> set ?venue" by simp
  have v: "zparse (ZObject ?venue) (JObj venue) = Inl ZodError"
    using m a by (blast intro: field_out_of_range)
  have r: "(''recommendations'', ZArray (ZObject ?venue)) \<in>
             set [(''recommendations'', ZArray (ZObject ?venue)), (''recommendationSummary'', ZString)]"
    by simp
  show "zparse coworkingRecommendationSchema (JObj kvs) = Inl ZodError"
    unfolding coworkingRecommendationSchema_def
    using r a v by (blast intro: listed_entry_fails)
next
  assume a: "js_own kvs ''recommendations'' = JArr xs \<and> JObj entry \<in> set xs \<and>
      js_own entry ''relevanceScore'' = JNum n \<and> \<not> in_range 1 10 n"
  let ?entry = "[(''name'', ZString), (''type'', ZString),
          (''relevanceScore'', ZNumber [Min 1, Max 10]), (''description'', ZString),
          (''contactMethod'', ZOptional ZString), (''matchingInterests'', ZArray ZString),
          (''networkingApproach'', ZString)]"
  have m: "(''relevanceScore'', ZNumber [Min 1, Max 10]) \<in> set ?entry" by simp
  have v: "zparse (ZObject ?entry) (JObj entry) = Inl ZodError"
    using m a by (blast intro: field_out_of_range)
  have r: "(''recommendations'', ZArray (ZObject ?entry)) \<in>
             set [(''recommendations'', ZArray (ZObject ?entry))]"
    by simp
  show "zparse communityRecommendationSchema (JObj kvs) = Inl ZodError"
    unfolding communityRecommendationSchema_def
    using r a v by (blast intro: listed_entry_fails)
qed

theorem bounds_enforced_witness:
  "zparse coworkingRecommendationSchema
     (JObj [(''recommendations'', JArr [JObj
              [(''name'', JStr ''Hub''), (''location'', JStr ''Lisbon''), (''price'', JStr ''12''),
               (''amenities'', JArr []), (''matchingCriteria'', JArr []),
               (''potentialDrawbacks'', JArr []), (''rank'', JNum (Fin 6))]]),
            (''recommendationSummary'', JStr ''one'')]) = Inl ZodError \<and>
   zparse communityRecommendationSchema
     (JObj [(''recommendations'', JArr [JObj
              [(''name'', JStr ''Meetup''), (''type'', JStr ''Event''),
               (''relevanceScore'', JNum (Fin (1 / 2))), (''description'', JStr ''weekly''),
               (''matchingInterests'', JArr []), (''networkingApproach'', JStr ''go'')]])]) =
     Inl ZodError"
  using bounds_enforced [where n = "Fin 6"
      and xs = "[JObj [(''name'', JStr ''Hub''), (''location'', JStr ''Lisbon''), (''price'', JStr ''12''),
               (''amenities'', JArr []), (''matchingCriteria'', JArr []),
               (''potentialDrawbacks'', JArr []), (''rank'', JNum (Fin 6))]]"
      and venue = "[(''name'', JStr ''Hub''), (''location'', JStr ''Lisbon''), (''price'', JStr ''12''),
               (''amenities'', JArr []), (''matchingCriteria'', JArr []),
               (''potentialDrawbacks'', JArr []), (''rank'', JNum (Fin 6))]"
      and kvs = "[(''recommendations'', JArr [JObj
              [(''name'', JStr ''Hub''), (''location'', JStr ''Lisbon''), (''price'', JStr ''12''),
               (''amenities'', JArr []), (''matchingCriteria'', JArr []),
               (''potentialDrawbacks'', JArr []), (''rank'', JNum (Fin 6))]]),
            (''recommendationSummary'', JStr ''one'')]", THEN conjunct1]
    bounds_enforced [where n = "Fin (1 / 2)"
      and xs = "[JObj [(''name'', JStr ''Meetup''), (''type'', JStr ''Event''),
               (''relevanceScore'', JNum (Fin (1 / 2))), (''description'', JStr ''weekly''),
               (''matchingInterests'', JArr []), (''networkingApproach'', JStr ''go'')]]"
      and entry = "[(''name'', JStr ''Meetup''), (''type'', JStr ''Event''),
               (''relevanceScore'', JNum (Fin (1 / 2))), (''description'', JStr ''weekly''),
               (''matchingInterests'', JArr []), (''networkingApproach'', JStr ''go'')]"
      and kvs = "[(''recommendations'', JArr [JObj
              [(''name'', JStr ''Meetup''), (''type'', JStr ''Event''),
               (''relevanceScore'', JNum (Fin (1 / 2))), (''description'', JStr ''weekly''),
               (''matchingInterests'', JArr []), (''networkingApproach'', JStr ''go'')]])]",
      THEN conjunct2]
  by (simp add: js_own_def)

section \<open>Validation errors\<close>

text \<open>
  Claim C2. For each of the seven operations: when the gateway returns a value that misses
  a field which the schema of the operation requires, the operation throws a \<^verbatim>\<open>ZodError\<close>.
  No call of the gateway throws a \<^verbatim>\<open>ZodError\<close>: the configuration error and the upstream
  errors are of class \<^verbatim>\<open>Error\<close>, \<^verbatim>\<open>TypeError\<close> or \<^verbatim>\<open>SyntaxError\<close>. And each operation throws
  the error that the gateway threw, as it is: a caller sees a \<^verbatim>\<open>ZodError\<close> only when the
  gateway returned a value and the value failed validation.
\<close>

theorem missing_field_is_validation_error:
  "(result (callGeminiAPI rt ev (analyzeCalendarConflicts_prompt rt events) [] []) = Inr v \<and>
      missing_required conflictAnalysisSchema v
      \<longrightarrow> result (analyzeCalendarConflicts rt ev events) = Inl ZodError) \<and>
   (result (callGeminiAPI rt ev (getCoworkingRecommendations_prompt rt preferences) [] []) = Inr v \<and>
      missing_required coworkingRecommendationSchema v
      \<longrightarrow> result (getCoworkingRecommendations rt ev preferences) = Inl ZodError) \<and>
   (result (callGeminiAPI rt ev (getTimeZoneRecommendations_prompt rt teamInfo) [] []) = Inr v \<and>
      missing_required timeZoneRecommendationSchema v
      \<longrightarrow> result (getTimeZoneRecommendations rt ev teamInfo) = Inl ZodError) \<and>
   (result (callGeminiAPI rt ev (analyzeBudget_prompt rt expenseData) [] []) = Inr v \<and>
      missing_required budgetAnalysisSchema v
      \<longrightarrow> result (analyzeBudget rt ev expenseData) = Inl ZodError) \<and>
   (result (callGeminiAPI rt ev (getCommunityRecommendations_prompt rt userProfile) [] []) = Inr v \<and>
      missing_required communityRecommendationSchema v
      \<longrightarrow> result (getCommunityRecommendations rt ev userProfile) = Inl ZodError) \<and>
   (js_get query ''question'' = Inr question \<and>
    result (callGeminiAPI rt ev (getLegalResources_prompt rt question) [] []) = Inr v \<and>
      missing_required legalResourceSchema v
      \<longrightarrow> result (getLegalResources rt ev query) = Inl ZodError) \<and>
   (result (callGeminiAPI rt ev (getAssistantResponse_prompt rt message) [] []) = Inr v \<and>
      missing_required assistantResponseSchema v
      \<longrightarrow> result (getAssistantResponse rt ev message) = Inl ZodError) \<and>
   result (callGeminiAPI rt ev prompt context modelParams) \<noteq> Inl ZodError \<and>
   (result (callGeminiAPI rt ev (analyzeCalendarConflicts_prompt rt events) [] []) = Inl e
      \<longrightarrow> result (analyzeCalendarConflicts rt ev events) = Inl e) \<and>
   (result (callGeminiAPI rt ev (getCoworkingRecommendations_prompt rt preferences) [] []) = Inl e
      \<longrightarrow> result (getCoworkingRecommendations rt ev preferences) = Inl e) \<and>
   (result (callGeminiAPI rt ev (getTimeZoneRecommendations_prompt rt teamInfo) [] []) = Inl e
      \<longrightarrow> result (getTimeZoneRecommendations rt ev teamInfo) = Inl e) \<and>
   (result (callGeminiAPI rt ev (analyzeBudget_prompt rt expenseData) [] []) = Inl e
      \<longrightarrow> result (analyzeBudget rt ev expenseData) = Inl e) \<and>
   (result (callGeminiAPI rt ev (getCommunityRecommendations_prompt rt userProfile) [] []) = Inl e
      \<longrightarrow> result (getCommunityRecommendations rt ev userProfile) = Inl e) \<and>
   (js_get query ''question'' = Inr question \<and>
    result (callGeminiAPI rt ev (getLegalResources_prompt rt question) [] []) = Inl e
      \<longrightarrow> result (getLegalResources rt ev query) = Inl e) \<and>
   (result (callGeminiAPI rt ev (getAssistantResponse_prompt rt message) [] []) = Inl e
      \<longrightarrow> result (getAssistantResponse rt ev message) = Inl e) \<and>
   (js_get query ''question'' = Inl e \<longrightarrow> result (getLegalResources rt ev query) = Inl e)"
  unfolding analyzeCalendarConflicts_def getCoworkingRecommendations_def
    getTimeZoneRecommendations_def analyzeBudget_def getCommunityRecommendations_def
    getLegalResources_def getAssistantResponse_def
  by (intro conjI impI; (elim conjE)?; (simp only: sum.case)?;
      (rule gateway_not_Zod | (rule pass_through, assumption) |
       (rule parse_result_fails, assumption, rule missing_required_fails, assumption) | simp))

theorem missing_field_is_validation_error_witness:
  "result (analyzeCalendarConflicts (demo_runtime ''{}'' (Some (JObj []))) (demo_env (demo_body ''{}'')) (JArr [])) = Inl ZodError \<and>
   result (getCoworkingRecommendations (demo_runtime ''{}'' (Some (JObj []))) (demo_env (demo_body ''{}'')) (JNull)) = Inl ZodError \<and>
   result (getTimeZoneRecommendations (demo_runtime ''{}'' (Some (JObj []))) (demo_env (demo_body ''{}'')) (JNull)) = Inl ZodError \<and>
   result (analyzeBudget (demo_runtime ''{}'' (Some (JObj []))) (demo_env (demo_body ''{}'')) (JNull)) = Inl ZodError \<and>
   result (getCommunityRecommendations (demo_runtime ''{}'' (Some (JObj []))) (demo_env (demo_body ''{}'')) (JNull)) = Inl ZodError \<and>
   result (getLegalResources (demo_runtime ''{}'' (Some (JObj []))) (demo_env (demo_body ''{}'')) (JObj [(''question'', JStr ''Visa?'')])) = Inl ZodError \<and>
   result (getAssistantResponse (demo_runtime ''{}'' (Some (JObj []))) (demo_env (demo_body ''{}'')) (''Hi'')) = Inl ZodError \<and>
   result (analyzeCalendarConflicts (demo_runtime ''{}'' None) no_key_env (JArr [])) =
     Inl (Error ''Gemini API key not found. Please set the GEMINI_API_KEY environment variable.'') \<and>
   result (getCoworkingRecommendations (demo_runtime ''{}'' None) no_key_env (JNull)) =
     Inl (Error ''Gemini API key not found. Please set the GEMINI_API_KEY environment variable.'') \<and>
   result (getTimeZoneRecommendations (demo_runtime ''{}'' None) no_key_env (JNull)) =
     Inl (Error ''Gemini API key not found. Please set the GEMINI_API_KEY environment variable.'') \<and>
   result (analyzeBudget (demo_runtime ''{}'' None) no_key_env (JNull)) =
     Inl (Error ''Gemini API key not found. Please set the GEMINI_API_KEY environment variable.'') \<and>
   result (getCommunityRecommendations (demo_runtime ''{}'' None) no_key_env (JNull)) =
     Inl (Error ''Gemini API key not found. Please set the GEMINI_API_KEY environment variable.'') \<and>
   result (getLegalResources (demo_runtime ''{}'' None) no_key_env (JObj [(''question'', JStr ''Visa?'')])) =
     Inl (Error ''Gemini API key not found. Please set the GEMINI_API_KEY environment variable.'') \<and>
   result (getAssistantResponse (demo_runtime ''{}'' None) no_key_env (''Hi'')) =
     Inl (Error ''Gemini API key not found. Please set the GEMINI_API_KEY environment variable.'') \<and>
   result (getLegalResources (demo_runtime ''{}'' None) (demo_env (demo_body ''{}'')) JNull) = Inl TypeError"
  using missing_field_is_validation_error [where rt = "demo_runtime ''{}'' (Some (JObj []))"
      and ev = "demo_env (demo_body ''{}'')" and v = "JObj []"
      and question = "JStr ''Visa?''" and events = "JArr []" and preferences = "JNull" and teamInfo = "JNull" and expenseData = "JNull" and userProfile = "JNull" and query = "JObj [(''question'', JStr ''Visa?'')]" and message = "''Hi''"]
    missing_field_is_validation_error [where rt = "demo_runtime ''{}'' None"
      and ev = no_key_env and e = "Error ''Gemini API key not found. Please set the GEMINI_API_KEY environment variable.''"
      and question = "JStr ''Visa?''" and events = "JArr []" and preferences = "JNull" and teamInfo = "JNull" and expenseData = "JNull" and userProfile = "JNull" and query = "JObj [(''question'', JStr ''Visa?'')]" and message = "''Hi''"]
    missing_field_is_validation_error [where rt = "demo_runtime ''{}'' None"
      and ev = "demo_env (demo_body ''{}'')" and e = TypeError and query = JNull]
  by (simp add: demo_call no_key_call eval_defs)

section \<open>The raw-text fallback at the public interface\<close>

text \<open>
  Claim C9. For each of the seven operations: when the credential is present, the answer of
  the upstream is a success from which the gateway extracts a text payload, and
  \<^verbatim>\<open>JSON.parse\<close> rejects that payload, the operation throws a \<^verbatim>\<open>ZodError\<close>: the object
  \<^verbatim>\<open>{rawResponse: <text>}\<close> that the gateway returns fails the schema of the operation.
\<close>

theorem fallback_fails_validation:
  assumes "GEMINI_API_KEY ev = Some key" and "key \<noteq> []"
    and "JSON_parse rt (as_string rt textContent) = None"
  shows
  "(response_text rt (fetch ev (build_request key (analyzeCalendarConflicts_prompt rt events) [])) = Inr textContent
      \<longrightarrow> result (analyzeCalendarConflicts rt ev events) = Inl ZodError) \<and>
   (response_text rt (fetch ev (build_request key (getCoworkingRecommendations_prompt rt preferences) [])) = Inr textContent
      \<longrightarrow> result (getCoworkingRecommendations rt ev preferences) = Inl ZodError) \<and>
   (response_text rt (fetch ev (build_request key (getTimeZoneRecommendations_prompt rt teamInfo) [])) = Inr textContent
      \<longrightarrow> result (getTimeZoneRecommendations rt ev teamInfo) = Inl ZodError) \<and>
   (response_text rt (fetch ev (build_request key (analyzeBudget_prompt rt expenseData) [])) = Inr textContent
      \<longrightarrow> result (analyzeBudget rt ev expenseData) = Inl ZodError) \<and>
   (response_text rt (fetch ev (build_request key (getCommunityRecommendations_prompt rt userProfile) [])) = Inr textContent
      \<longrightarrow> result (getCommunityRecommendations rt ev userProfile) = Inl ZodError) \<and>
   (js_get query ''question'' = Inr question \<and>
    response_text rt (fetch ev (build_request key (getLegalResources_prompt rt question) [])) = Inr textContent
      \<longrightarrow> result (getLegalResources rt ev query) = Inl ZodError) \<and>
   (response_text rt (fetch ev (build_request key (getAssistantResponse_prompt rt message) [])) = Inr textContent
      \<longrightarrow> result (getAssistantResponse rt ev message) = Inl ZodError)"
  unfolding analyzeCalendarConflicts_def getCoworkingRecommendations_def
    getTimeZoneRecommendations_def analyzeBudget_def getCommunityRecommendations_def
    getLegalResources_def getAssistantResponse_def
  using raw_then_parse [OF assms] raw_rejected [of textContent]
  by (simp del: zparse.simps)

theorem fallback_fails_validation_witness:
  "result (analyzeCalendarConflicts (demo_runtime demo_prose None) (demo_env (demo_body demo_prose)) (JArr [])) = Inl ZodError \<and>
   result (getCoworkingRecommendations (demo_runtime demo_prose None) (demo_env (demo_body demo_prose)) (JNull)) = Inl ZodError \<and>
   result (getTimeZoneRecommendations (demo_runtime demo_prose None) (demo_env (demo_body demo_prose)) (JNull)) = Inl ZodError \<and>
   result (analyzeBudget (demo_runtime demo_prose None) (demo_env (demo_body demo_prose)) (JNull)) = Inl ZodError \<and>
   result (getCommunityRecommendations (demo_runtime demo_prose None) (demo_env (demo_body demo_prose)) (JNull)) = Inl ZodError \<and>
   result (getLegalResources (demo_runtime demo_prose None) (demo_env (demo_body demo_prose)) (JObj [(''question'', JStr ''Visa?'')])) = Inl ZodError \<and>
   result (getAssistantResponse (demo_runtime demo_prose None) (demo_env (demo_body demo_prose)) (''Hi'')) = Inl ZodError"
  using fallback_fails_validation [where rt = "demo_runtime demo_prose None"
      and ev = "demo_env (demo_body demo_prose)" and key = "''secret''"
      and textContent = "JStr demo_prose" and question = "JStr ''Visa?''" and events = "JArr []" and preferences = "JNull" and teamInfo = "JNull" and expenseData = "JNull" and userProfile = "JNull" and query = "JObj [(''question'', JStr ''Visa?'')]" and message = "''Hi''"]
  by (simp add: demo_key demo_text demo_parse_text as_string_def js_own_def)

section \<open>The prompt of an operation\<close>

text \<open>
  Claim C8. For each of the seven operations: the prompt is a fixed text before and a fixed
  text after the serialisation of the data of the call (\<^verbatim>\<open>JSON.stringify(data, null, 2)\<close>, the
  question, or the query itself), the same two texts for every runtime and every data; a call
  with a credential issues one request, which carries that prompt, and a call without one
  issues none; so two calls with the same data, in whatever environments, send prompts that
  are the same string. (The serialisation of the runtime is a function of the value it is
  given.)
\<close>

theorem prompt_depends_on_data_only:
  "((\<exists>pre post. \<forall>rt data. analyzeCalendarConflicts_prompt rt data = pre @ JSON_stringify rt data @ post) \<and>
    map sent_prompt (requests (analyzeCalendarConflicts rt ev events)) =
      (if GEMINI_API_KEY ev = None \<or> GEMINI_API_KEY ev = Some [] then []
       else [Inr (JStr (analyzeCalendarConflicts_prompt rt events))]) \<and>
    (\<forall>r \<in> set (requests (analyzeCalendarConflicts rt ev events)).
      \<forall>r' \<in> set (requests (analyzeCalendarConflicts rt ev' events)). sent_prompt r' = sent_prompt r)) \<and>
   ((\<exists>pre post. \<forall>rt data. getCoworkingRecommendations_prompt rt data = pre @ JSON_stringify rt data @ post) \<and>
    map sent_prompt (requests (getCoworkingRecommendations rt ev preferences)) =
      (if GEMINI_API_KEY ev = None \<or> GEMINI_API_KEY ev = Some [] then []
       else [Inr (JStr (getCoworkingRecommendations_prompt rt preferences))]) \<and>
    (\<forall>r \<in> set (requests (getCoworkingRecommendations rt ev preferences)).
      \<forall>r' \<in> set (requests (getCoworkingRecommendations rt ev' preferences)). sent_prompt r' = sent_prompt r)) \<and>
   ((\<exists>pre post. \<forall>rt data. getTimeZoneRecommendations_prompt rt data = pre @ JSON_stringify rt data @ post) \<and>
    map sent_prompt (requests (getTimeZoneRecommendations rt ev teamInfo)) =
      (if GEMINI_API_KEY ev = None \<or> GEMINI_API_KEY ev = Some [] then []
       else [Inr (JStr (getTimeZoneRecommendations_prompt rt teamInfo))]) \<and>
    (\<forall>r \<in> set (requests (getTimeZoneRecommendations rt ev teamInfo)).
      \<forall>r' \<in> set (requests (getTimeZoneRecommendations rt ev' teamInfo)). sent_prompt r' = sent_prompt r)) \<and>
   ((\<exists>pre post. \<forall>rt data. analyzeBudget_prompt rt data = pre @ JSON_stringify rt data @ post) \<and>
    map sent_prompt (requests (analyzeBudget rt ev expenseData)) =
      (if GEMINI_API_KEY ev = None \<or> GEMINI_API_KEY ev = Some [] then []
       else [Inr (JStr (analyzeBudget_prompt rt expenseData))]) \<and>
    (\<forall>r \<in> set (requests (analyzeBudget rt ev expenseData)).
      \<forall>r' \<in> set (requests (analyzeBudget rt ev' expenseData)). sent_prompt r' = sent_prompt r)) \<and>
   ((\<exists>pre post. \<forall>rt data. getCommunityRecommendations_prompt rt data = pre @ JSON_stringify rt data @ post) \<and>
    map sent_prompt (requests (getCommunityRecommendations rt ev userProfile)) =
      (if GEMINI_API_KEY ev = None \<or> GEMINI_API_KEY ev = Some [] then []
       else [Inr (JStr (getCommunityRecommendations_prompt rt userProfile))]) \<and>
    (\<forall>r \<in> set (requests (getCommunityRecommendations rt ev userProfile)).
      \<forall>r' \<in> set (requests (getCommunityRecommendations rt ev' userProfile)). sent_prompt r' = sent_prompt r)) \<and>
   ((\<exists>pre post. \<forall>rt question. getLegalResources_prompt rt question = pre @ as_string rt question @ post) \<and>
    map sent_prompt (requests (getLegalResources rt ev query)) =
      (case js_get query ''question'' of
         Inl e \<Rightarrow> []
       | Inr question \<Rightarrow>
           if GEMINI_API_KEY ev = None \<or> GEMINI_API_KEY ev = Some [] then []
           else [Inr (JStr (getLegalResources_prompt rt question))]) \<and>
    (\<forall>r \<in> set (requests (getLegalResources rt ev query)).
      \<forall>r' \<in> set (requests (getLegalResources rt ev' query)). sent_prompt r' = sent_prompt r)) \<and>
   ((\<exists>pre post. \<forall>rt message. getAssistantResponse_prompt rt message = pre @ message @ post) \<and>
    map sent_prompt (requests (getAssistantResponse rt ev message)) =
      (if GEMINI_API_KEY ev = None \<or> GEMINI_API_KEY ev = Some [] then []
       else [Inr (JStr (getAssistantResponse_prompt rt message))]) \<and>
    (\<forall>r \<in> set (requests (getAssistantResponse rt ev message)).
      \<forall>r' \<in> set (requests (getAssistantResponse rt ev' message)). sent_prompt r' = sent_prompt r))"
  by (intro conjI) (rule prompt_embeds op_sent_prompts op_same_prompts)+

theorem prompt_depends_on_data_only_witness:
  "(\<exists>pre post.
      map sent_prompt (requests (analyzeCalendarConflicts (demo_runtime demo_prose None) (demo_env ''{}'') (JArr []))) =
        [Inr (JStr (pre @ ''[]'' @ post))] \<and>
      map sent_prompt (requests (analyzeCalendarConflicts (demo_runtime demo_prose None) (demo_env (demo_body demo_prose)) (JNull))) =
        [Inr (JStr (pre @ ''null'' @ post))]) \<and>
   (\<exists>pre post.
      map sent_prompt (requests (getCoworkingRecommendations (demo_runtime demo_prose None) (demo_env ''{}'') (JArr []))) =
        [Inr (JStr (pre @ ''[]'' @ post))] \<and>
      map sent_prompt (requests (getCoworkingRecommendations (demo_runtime demo_prose None) (demo_env (demo_body demo_prose)) (JNull))) =
        [Inr (JStr (pre @ ''null'' @ post))]) \<and>
   (\<exists>pre post.
      map sent_prompt (requests (getTimeZoneRecommendations (demo_runtime demo_prose None) (demo_env ''{}'') (JArr []))) =
        [Inr (JStr (pre @ ''[]'' @ post))] \<and>
      map sent_prompt (requests (getTimeZoneRecommendations (demo_runtime demo_prose None) (demo_env (demo_body demo_prose)) (JNull))) =
        [Inr (JStr (pre @ ''null'' @ post))]) \<and>
   (\<exists>pre post.
      map sent_prompt (requests (analyzeBudget (demo_runtime demo_prose None) (demo_env ''{}'') (JArr []))) =
        [Inr (JStr (pre @ ''[]'' @ post))] \<and>
      map sent_prompt (requests (analyzeBudget (demo_runtime demo_prose None) (demo_env (demo_body demo_prose)) (JNull))) =
        [Inr (JStr (pre @ ''null'' @ post))]) \<and>
   (\<exists>pre post.
      map sent_prompt (requests (getCommunityRecommendations (demo_runtime demo_prose None) (demo_env ''{}'') (JArr []))) =
        [Inr (JStr (pre @ ''[]'' @ post))] \<and>
      map sent_prompt (requests (getCommunityRecommendations (demo_runtime demo_prose None) (demo_env (demo_body demo_prose)) (JNull))) =
        [Inr (JStr (pre @ ''null'' @ post))]) \<and>
   (\<exists>pre post.
      map sent_prompt (requests (getLegalResources (demo_runtime demo_prose None) (demo_env ''{}'') (JObj [(''question'', JStr ''Visa?'')]))) =
        [Inr (JStr (pre @ ''Visa?'' @ post))] \<and>
      map sent_prompt (requests (getLegalResources (demo_runtime demo_prose None) (demo_env (demo_body demo_prose)) (JObj [(''question'', JStr ''Tax?'')]))) =
        [Inr (JStr (pre @ ''Tax?'' @ post))]) \<and>
   (\<exists>pre post.
      map sent_prompt (requests (getAssistantResponse (demo_runtime demo_prose None) (demo_env ''{}'') (''Hi''))) =
        [Inr (JStr (pre @ ''Hi'' @ post))] \<and>
      map sent_prompt (requests (getAssistantResponse (demo_runtime demo_prose None) (demo_env (demo_body demo_prose)) (''Hello''))) =
        [Inr (JStr (pre @ ''Hello'' @ post))])"
proof (intro conjI)
  show "(\<exists>pre post.
      map sent_prompt (requests (analyzeCalendarConflicts (demo_runtime demo_prose None) (demo_env ''{}'') (JArr []))) =
        [Inr (JStr (pre @ ''[]'' @ post))] \<and>
      map sent_prompt (requests (analyzeCalendarConflicts (demo_runtime demo_prose None) (demo_env (demo_body demo_prose)) (JNull))) =
        [Inr (JStr (pre @ ''null'' @ post))])"
  proof -
    note t1 = prompt_depends_on_data_only [where rt = "demo_runtime demo_prose None" and ev = "demo_env ''{}''"
        and events = "JArr []", THEN conjunct1]
    note t2 = prompt_depends_on_data_only [where rt = "demo_runtime demo_prose None"
        and ev = "demo_env (demo_body demo_prose)" and events = "JNull", THEN conjunct1]
    from t1 obtain pre post where pp: "\<And>rt data. analyzeCalendarConflicts_prompt rt data = pre @ JSON_stringify rt data @ post"
      by blast
    from t1 have a1: "map sent_prompt (requests (analyzeCalendarConflicts (demo_runtime demo_prose None) (demo_env ''{}'') (JArr []))) =
        [Inr (JStr (analyzeCalendarConflicts_prompt (demo_runtime demo_prose None) (JArr [])))]"
      by (simp add: demo_key js_own_def)
    from t2 have a2: "map sent_prompt (requests (analyzeCalendarConflicts (demo_runtime demo_prose None) (demo_env (demo_body demo_prose)) (JNull))) =
        [Inr (JStr (analyzeCalendarConflicts_prompt (demo_runtime demo_prose None) (JNull)))]"
      by (simp add: demo_key js_own_def)
    show ?thesis
      by (rule exI [of _ pre], rule exI [of _ post]) (simp add: a1 a2 pp demo_stringify as_string_def)
  qed

  show "(\<exists>pre post.
      map sent_prompt (requests (getCoworkingRecommendations (demo_runtime demo_prose None) (demo_env ''{}'') (JArr []))) =
        [Inr (JStr (pre @ ''[]'' @ post))] \<and>
      map sent_prompt (requests (getCoworkingRecommendations (demo_runtime demo_prose None) (demo_env (demo_body demo_prose)) (JNull))) =
        [Inr (JStr (pre @ ''null'' @ post))])"
  proof -
    note t1 = prompt_depends_on_data_only [where rt = "demo_runtime demo_prose None" and ev = "demo_env ''{}''"
        and preferences = "JArr []", THEN conjunct2, THEN conjunct1]
    note t2 = prompt_depends_on_data_only [where rt = "demo_runtime demo_prose None"
        and ev = "demo_env (demo_body demo_prose)" and preferences = "JNull", THEN conjunct2, THEN conjunct1]
    from t1 obtain pre post where pp: "\<And>rt data. getCoworkingRecommendations_prompt rt data = pre @ JSON_stringify rt data @ post"
      by blast
    from t1 have a1: "map sent_prompt (requests (getCoworkingRecommendations (demo_runtime demo_prose None) (demo_env ''{}'') (JArr []))) =
        [Inr (JStr (getCoworkingRecommendations_prompt (demo_runtime demo_prose None) (JArr [])))]"
      by (simp add: demo_key js_own_def)
    from t2 have a2: "map sent_prompt (requests (getCoworkingRecommendations (demo_runtime demo_prose None) (demo_env (demo_body demo_prose)) (JNull))) =
        [Inr (JStr (getCoworkingRecommendations_prompt (demo_runtime demo_prose None) (JNull)))]"
      by (simp add: demo_key js_own_def)
    show ?thesis
      by (rule exI [of _ pre], rule exI [of _ post]) (simp add: a1 a2 pp demo_stringify as_string_def)
  qed

  show "(\<exists>pre post.
      map sent_prompt (requests (getTimeZoneRecommendations (demo_runtime demo_prose None) (demo_env ''{}'') (JArr []))) =
        [Inr (JStr (pre @ ''[]'' @ post))] \<and>
      map sent_prompt (requests (getTimeZoneRecommendations (demo_runtime demo_prose None) (demo_env (demo_body demo_prose)) (JNull))) =
        [Inr (JStr (pre @ ''null'' @ post))])"
  proof -
    note t1 = prompt_depends_on_data_only [where rt = "demo_runtime demo_prose None" and ev = "demo_env ''{}''"
        and teamInfo = "JArr []", THEN conjunct2, THEN conjunct2, THEN conjunct1]
    note t2 = prompt_depends_on_data_only [where rt = "demo_runtime demo_prose None"
        and ev = "demo_env (demo_body demo_prose)" and teamInfo = "JNull", THEN conjunct2, THEN conjunct2, THEN conjunct1]
    from t1 obtain pre post where pp: "\<And>rt data. getTimeZoneRecommendations_prompt rt data = pre @ JSON_stringify rt data @ post"
      by blast
    from t1 have a1: "map sent_prompt (requests (getTimeZoneRecommendations (demo_runtime demo_prose None) (demo_env ''{}'') (JArr []))) =
        [Inr (JStr (getTimeZoneRecommendations_prompt (demo_runtime demo_prose None) (JArr [])))]"
      by (simp add: demo_key js_own_def)
    from t2 have a2: "map sent_prompt (requests (getTimeZoneRecommendations (demo_runtime demo_prose None) (demo_env (demo_body demo_prose)) (JNull))) =
        [Inr (JStr (getTimeZoneRecommendations_prompt (demo_runtime demo_prose None) (JNull)))]"
      by (simp add: demo_key js_own_def)
    show ?thesis
      by (rule exI [of _ pre], rule exI [of _ post]) (simp add: a1 a2 pp demo_stringify as_string_def)
  qed

  show "(\<exists>pre post.
      map sent_prompt (requests (analyzeBudget (demo_runtime demo_prose None) (demo_env ''{}'') (JArr []))) =
        [Inr (JStr (pre @ ''[]'' @ post))] \<and>
      map sent_prompt (requests (analyzeBudget (demo_runtime demo_prose None) (demo_env (demo_body demo_prose)) (JNull))) =
        [Inr (JStr (pre @ ''null'' @ post))])"
  proof -
    note t1 = prompt_depends_on_data_only [where rt = "demo_runtime demo_prose None" and ev = "demo_env ''{}''"
        and expenseData = "JArr []", THEN conjunct2, THEN conjunct2, THEN conjunct2, THEN conjunct1]
    note t2 = prompt_depends_on_data_only [where rt = "demo_runtime demo_prose None"
        and ev = "demo_env (demo_body demo_prose)" and expenseData = "JNull", THEN conjunct2, THEN conjunct2, THEN conjunct2, THEN conjunct1]
    from t1 obtain pre post where pp: "\<And>rt data. analyzeBudget_prompt rt data = pre @ JSON_stringify rt data @ post"
      by blast
    from t1 have a1: "map sent_prompt (requests (analyzeBudget (demo_runtime demo_prose None) (demo_env ''{}'') (JArr []))) =
        [Inr (JStr (analyzeBudget_prompt (demo_runtime demo_prose None) (JArr [])))]"
      by (simp add: demo_key js_own_def)
    from t2 have a2: "map sent_prompt (requests (analyzeBudget (demo_runtime demo_prose None) (demo_env (demo_body demo_prose)) (JNull))) =
        [Inr (JStr (analyzeBudget_prompt (demo_runtime demo_prose None) (JNull)))]"
      by (simp add: demo_key js_own_def)
    show ?thesis
      by (rule exI [of _ pre], rule exI [of _ post]) (simp add: a1 a2 pp demo_stringify as_string_def)
  qed

  show "(\<exists>pre post.
      map sent_prompt (requests (getCommunityRecommendations (demo_runtime demo_prose None) (demo_env ''{}'') (JArr []))) =
        [Inr (JStr (pre @ ''[]'' @ post))] \<and>
      map sent_prompt (requests (getCommunityRecommendations (demo_runtime demo_prose None) (demo_env (demo_body demo_prose)) (JNull))) =
        [Inr (JStr (pre @ ''null'' @ post))])"
  proof -
    note t1 = prompt_depends_on_data_only [where rt = "demo_runtime demo_prose None" and ev = "demo_env ''{}''"
        and userProfile = "JArr []", THEN conjunct2, THEN conjunct2, THEN conjunct2, THEN conjunct2, THEN conjunct1]
    note t2 = prompt_depends_on_data_only [where rt = "demo_runtime demo_prose None"
        and ev = "demo_env (demo_body demo_prose)" and userProfile = "JNull", THEN conjunct2, THEN conjunct2, THEN conjunct2, THEN conjunct2, THEN conjunct1]
    from t1 obtain pre post where pp: "\<And>rt data. getCommunityRecommendations_prompt rt data = pre @ JSON_stringify rt data @ post"
      by blast
    from t1 have a1: "map sent_prompt (requests (getCommunityRecommendations (demo_runtime demo_prose None) (demo_env ''{}'') (JArr []))) =
        [Inr (JStr (getCommunityRecommendations_prompt (demo_runtime demo_prose None) (JArr [])))]"
      by (simp add: demo_key js_own_def)
    from t2 have a2: "map sent_prompt (requests (getCommunityRecommendations (demo_runtime demo_prose None) (demo_env (demo_body demo_prose)) (JNull))) =
        [Inr (JStr (getCommunityRecommendations_prompt (demo_runtime demo_prose None) (JNull)))]"
      by (simp add: demo_key js_own_def)
    show ?thesis
      by (rule exI [of _ pre], rule exI [of _ post]) (simp add: a1 a2 pp demo_stringify as_string_def)
  qed

  show "(\<exists>pre post.
      map sent_prompt (requests (getLegalResources (demo_runtime demo_prose None) (demo_env ''{}'') (JObj [(''question'', JStr ''Visa?'')]))) =
        [Inr (JStr (pre @ ''Visa?'' @ post))] \<and>
      map sent_prompt (requests (getLegalResources (demo_runtime demo_prose None) (demo_env (demo_body demo_prose)) (JObj [(''question'', JStr ''Tax?'')]))) =
        [Inr (JStr (pre @ ''Tax?'' @ post))])"
  proof -
    note t1 = prompt_depends_on_data_only [where rt = "demo_runtime demo_prose None" and ev = "demo_env ''{}''"
        and query = "JObj [(''question'', JStr ''Visa?'')]", THEN conjunct2, THEN conjunct2, THEN conjunct2, THEN conjunct2, THEN conjunct2, THEN conjunct1]
    note t2 = prompt_depends_on_data_only [where rt = "demo_runtime demo_prose None"
        and ev = "demo_env (demo_body demo_prose)" and query = "JObj [(''question'', JStr ''Tax?'')]", THEN conjunct2, THEN conjunct2, THEN conjunct2, THEN conjunct2, THEN conjunct2, THEN conjunct1]
    from t1 obtain pre post where pp: "\<And>rt question. getLegalResources_prompt rt question = pre @ as_string rt question @ post"
      by blast
    from t1 have a1: "map sent_prompt (requests (getLegalResources (demo_runtime demo_prose None) (demo_env ''{}'') (JObj [(''question'', JStr ''Visa?'')]))) =
        [Inr (JStr (getLegalResources_prompt (demo_runtime demo_prose None) (JStr ''Visa?'')))]"
      by (simp add: demo_key js_own_def)
    from t2 have a2: "map sent_prompt (requests (getLegalResources (demo_runtime demo_prose None) (demo_env (demo_body demo_prose)) (JObj [(''question'', JStr ''Tax?'')]))) =
        [Inr (JStr (getLegalResources_prompt (demo_runtime demo_prose None) (JStr ''Tax?'')))]"
      by (simp add: demo_key js_own_def)
    show ?thesis
      by (rule exI [of _ pre], rule exI [of _ post]) (simp add: a1 a2 pp demo_stringify as_string_def)
  qed

  show "(\<exists>pre post.
      map sent_prompt (requests (getAssistantResponse (demo_runtime demo_prose None) (demo_env ''{}'') (''Hi''))) =
        [Inr (JStr (pre @ ''Hi'' @ post))] \<and>
      map sent_prompt (requests (getAssistantResponse (demo_runtime demo_prose None) (demo_env (demo_body demo_prose)) (''Hello''))) =
        [Inr (JStr (pre @ ''Hello'' @ post))])"
  proof -
    note t1 = prompt_depends_on_data_only [where rt = "demo_runtime demo_prose None" and ev = "demo_env ''{}''"
        and message = "''Hi''", THEN conjunct2, THEN conjunct2, THEN conjunct2, THEN conjunct2, THEN conjunct2, THEN conjunct2]
    note t2 = prompt_depends_on_data_only [where rt = "demo_runtime demo_prose None"
        and ev = "demo_env (demo_body demo_prose)" and message = "''Hello''", THEN conjunct2, THEN conjunct2, THEN conjunct2, THEN conjunct2, THEN conjunct2, THEN conjunct2]
    from t1 obtain pre post where pp: "\<And>rt message. getAssistantResponse_prompt rt message = pre @ message @ post"
      by blast
    from t1 have a1: "map sent_prompt (requests (getAssistantResponse (demo_runtime demo_prose None) (demo_env ''{}'') (''Hi''))) =
        [Inr (JStr (getAssistantResponse_prompt (demo_runtime demo_prose None) (''Hi'')))]"
      by (simp add: demo_key js_own_def)
    from t2 have a2: "map sent_prompt (requests (getAssistantResponse (demo_runtime demo_prose None) (demo_env (demo_body demo_prose)) (''Hello''))) =
        [Inr (JStr (getAssistantResponse_prompt (demo_runtime demo_prose None) (''Hello'')))]"
      by (simp add: demo_key js_own_def)
    show ?thesis
      by (rule exI [of _ pre], rule exI [of _ post]) (simp add: a1 a2 pp demo_stringify as_string_def)
  qed
qed

section \<open>Undeclared fields\<close>



section \<open>The round trip\<close>




end
